theory Spec2Isabelle
  imports Complex_Main
begin

section \<open>Python values and errors\<close>

text \<open>
  The network of \<^verbatim>\<open>models/dense_net_3d.py\<close> is built from TensorFlow calls. The
  model follows the static shapes of the tensors and the calls the code issues, in the
  order it issues them. A Python exception is a value of \<open>py_error\<close>; a function that can
  raise returns \<open>py_error + 'a\<close> with \<open>Inl\<close> for the exception.
\<close>

datatype py_error =
    ZeroDivisionError | ValueError | TypeError | AttributeError | IndexError | NotFoundError
  | OverflowError

type_synonym 'a result = "py_error + 'a"

definition and_then :: "'a result \<Rightarrow> ('a \<Rightarrow> 'b result) \<Rightarrow> 'b result" where
  "and_then r f = (case r of Inl e \<Rightarrow> Inl e | Inr a \<Rightarrow> f a)"

text \<open>Python's floor division of integers; the divisor zero raises.\<close>

definition py_floordiv :: "int \<Rightarrow> int \<Rightarrow> int result" where
  "py_floordiv a b = (if b = 0 then Inl ZeroDivisionError else Inr (a div b))"

text \<open>\<^verbatim>\<open>range(n)\<close>: the integers from 0 below n, none when n is not positive.\<close>

definition py_range :: "int \<Rightarrow> int list" where
  "py_range n = map int [0..<nat n]"

section \<open>Floats and strings as Python has them\<close>

text \<open>
  A Python float is an IEEE 754 double: a finite value \<open>m * 2 ^ e\<close> with a mantissa
  \<open>m\<close> of at most 53 bits and \<open>e \<ge> -1074\<close>, an infinity, or not a number. The sign of
  zero is not kept: \<open>int\<close> reads both zeros as 0.
\<close>

datatype double = Double int int | Infinity | Minus_infinity | Not_a_number

text \<open>The real number a finite double with mantissa \<open>m\<close> and exponent \<open>e\<close> stands for.\<close>

definition double_value :: "int \<Rightarrow> int \<Rightarrow> real" where
  "double_value m e =
     (if 0 \<le> e then real_of_int m * 2 ^ nat e else real_of_int m / 2 ^ nat (- e))"

text \<open>The number of binary digits of a natural number.\<close>

fun bit_length :: "nat \<Rightarrow> nat" where
  "bit_length n = (if n = 0 then 0 else Suc (bit_length (n div 2)))"

declare bit_length.simps [simp del]

text \<open>\<open>n / 2 ^ k\<close> rounded to the nearest integer, a tie to the even one.\<close>

definition round_half_even :: "int \<Rightarrow> nat \<Rightarrow> int" where
  "round_half_even n k =
     (let q = n div 2 ^ k; r = n mod 2 ^ k
      in if 2 * r > 2 ^ k \<or> (2 * r = 2 ^ k \<and> odd q) then q + 1 else q)"

text \<open>
  The double nearest to \<open>n * 2 ^ e\<close> (round to nearest, ties to even): the bits beyond
  the 53rd, and those below \<open>2 ^ -1074\<close>, are rounded away; a result of \<open>2 ^ 1024\<close> or
  more is an infinity.
\<close>

definition to_double :: "int \<Rightarrow> int \<Rightarrow> double" where
  "to_double n e =
     (let k = max (int (bit_length (nat \<bar>n\<bar>)) - 53) (max (- 1074 - e) 0);
          q = round_half_even n (nat k)
      in if int (bit_length (nat \<bar>q\<bar>)) + (e + k) > 1024
         then (if n < 0 then Minus_infinity else Infinity)
         else Double q (e + k))"

text \<open>The conversion of an integer operand to a float: too large an integer raises.\<close>

definition float_of_int :: "int \<Rightarrow> double result" where
  "float_of_int n =
     (case to_double n 0 of
        Double m e \<Rightarrow> Inr (Double m e)
      | _ \<Rightarrow> Inl OverflowError)"

definition double_sign :: "double \<Rightarrow> int" where
  "double_sign x =
     (case x of
        Double m e \<Rightarrow> sgn m
      | Infinity \<Rightarrow> 1
      | Minus_infinity \<Rightarrow> - 1
      | Not_a_number \<Rightarrow> 0)"

text \<open>The product of two floats: the exact product rounded once.\<close>

fun double_mult :: "double \<Rightarrow> double \<Rightarrow> double" where
  "double_mult (Double m1 e1) (Double m2 e2) = to_double (m1 * m2) (e1 + e2)"
| "double_mult x y =
     (if x = Not_a_number \<or> y = Not_a_number \<or> double_sign x * double_sign y = 0
      then Not_a_number
      else if double_sign x * double_sign y > 0 then Infinity else Minus_infinity)"

text \<open>\<^verbatim>\<open>int(x)\<close> of a float truncates towards zero; an infinity and not a number raise.\<close>

definition py_int_of_float :: "double \<Rightarrow> int result" where
  "py_int_of_float x =
     (case x of
        Double m e \<Rightarrow>
          Inr (if 0 \<le> e then m * 2 ^ nat e
               else if 0 \<le> m then m div 2 ^ nat (- e)
               else - ((- m) div 2 ^ nat (- e)))
      | Not_a_number \<Rightarrow> Inl ValueError
      | _ \<Rightarrow> Inl OverflowError)"

text \<open>
  \<^verbatim>\<open>int(n * r)\<close> for an integer \<open>n\<close> and a float \<open>r\<close>: the integer is converted to
  a float, the product is rounded to a float, and the float is truncated.
\<close>

definition int_of_product :: "int \<Rightarrow> double \<Rightarrow> int result" where
  "int_of_product n r =
     and_then (float_of_int n) (\<lambda>x. py_int_of_float (double_mult x r))"

text \<open>
  A Python string as an object. The string literals of the program text that look like
  identifiers, among them the defaults of parameters, are interned: equal literals are one
  object. A string made at run time (read from a file, joined from pieces) is an object
  of its own. \<^verbatim>\<open>x is 'lit'\<close> against a literal asks for that one interned object.
\<close>

datatype py_string = Interned string | Not_interned string

definition is_literal :: "py_string \<Rightarrow> string \<Rightarrow> bool" where
  "is_literal x lit = (x = Interned lit)"

section \<open>Tensors, their static shapes and the graph\<close>

text \<open>
  A dimension of a static shape is a known size or unknown (\<^verbatim>\<open>None\<close>, the batch
  dimension of the placeholders). A Python variable that holds a tensor can also hold
  \<^verbatim>\<open>None\<close> (what \<^verbatim>\<open>pool\<close> returns for an unknown type), so a tensor value is a
  \<open>shape option\<close>.
\<close>

type_synonym dim = "int option"
type_synonym shape = "dim list"
type_synonym tensor = "shape option"

datatype padding = SAME | VALID

datatype initializer = Variance_scaling | Xavier | Zeros

text \<open>The variable scopes and name scopes the code opens, by their names.\<close>

datatype scope_name =
    Initial_convolution
  | Block int
  | Transition_after_block int
  | Transition_to_classes
  | Layer int
  | Composite_function_scope
  | Bottleneck_scope
  | ReLU_names
  | Concat_names
  | Pooling_names
  | Conv3D_names
  | Batch_normalization_names
  | Dropout_names

text \<open>
  The TensorFlow operations the code adds to the graph. Each \<open>Op\<close> node of the graph
  carries the static shape of its output; a \<open>Variable\<close> node is a call of
  \<^verbatim>\<open>tf.get_variable\<close> with the variable's name, shape and initializer; a \<open>Scope\<close>
  node holds what was added inside a \<^verbatim>\<open>with tf.variable_scope(...)\<close> or
  \<^verbatim>\<open>with tf.name_scope(...)\<close> block.
\<close>

datatype tf_op =
    Conv3D_op "int list" padding
  | Max_pool3d_op "int list" "int list" padding
  | Avg_pool3d_op "int list" "int list" padding
  | Batch_norm_op
  | Relu_op
  | Dropout_cond_op real
  | Concat_op int
  | Reshape_op
  | Matmul_op
  | Add_op
  | Softmax_op
  | Softmax_cross_entropy_op
  | Reduce_mean_op
  | L2_loss_sum_op
  | Momentum_minimize_op real
  | Equal_argmax_op

datatype node =
    Op tf_op shape
  | Variable string "int list" initializer
  | Scope scope_name "node list"

type_synonym built = "tensor \<times> node list"

subsection \<open>Shape inference of the TensorFlow primitives\<close>

text \<open>
  TensorFlow's own shape functions, at the interface the code uses them. The output size
  of a window of size \<open>k\<close> moved with stride \<open>s\<close> over a dimension of size \<open>n\<close> is
  \<open>ceil(n / s)\<close> with SAME padding and \<open>ceil((n - k + 1) / s)\<close> with VALID padding;
  a stride that is not positive, and a VALID window larger than the dimension, are
  rejected when the graph is built.
\<close>

definition windowed_output_size :: "dim \<Rightarrow> int \<Rightarrow> int \<Rightarrow> padding \<Rightarrow> dim result" where
  "windowed_output_size n k s p =
     (if s \<le> 0 then Inl ValueError
      else case n of
        None \<Rightarrow> Inr None
      | Some m \<Rightarrow>
          (case p of
             SAME \<Rightarrow> Inr (Some ((m + s - 1) div s))
           | VALID \<Rightarrow> if m < k then Inl ValueError else Inr (Some ((m - k + s) div s))))"

text \<open>\<^verbatim>\<open>_input.get_shape()\<close>: \<^verbatim>\<open>None\<close> has no such method.\<close>

definition get_shape :: "tensor \<Rightarrow> shape result" where
  "get_shape t = (case t of None \<Rightarrow> Inl AttributeError | Some s \<Rightarrow> Inr s)"

text \<open>A TensorFlow operation converts its argument to a tensor; \<^verbatim>\<open>None\<close> is refused.\<close>

definition as_tensor :: "tensor \<Rightarrow> shape result" where
  "as_tensor t = (case t of None \<Rightarrow> Inl ValueError | Some s \<Rightarrow> Inr s)"

text \<open>\<^verbatim>\<open>int(shape[i])\<close>: an unknown dimension cannot be converted.\<close>

definition int_of_dim :: "dim \<Rightarrow> int result" where
  "int_of_dim d = (case d of None \<Rightarrow> Inl TypeError | Some n \<Rightarrow> Inr n)"

text \<open>\<^verbatim>\<open>tf.get_variable(name, shape, initializer)\<close>: a negative dimension is refused.\<close>

definition tf_get_variable :: "string \<Rightarrow> int list \<Rightarrow> initializer \<Rightarrow> node result" where
  "tf_get_variable name shp ini =
     (if list_ex (\<lambda>d. d < 0) shp then Inl ValueError else Inr (Variable name shp ini))"

text \<open>
  The shape of a windowed operation over a rank 5 input \<open>[batch, depth, height, width,
  channels]\<close>: the three inner dimensions by \<open>windowed_output_size\<close>, batch unchanged.
\<close>

fun windowed_shape :: "shape \<Rightarrow> int list \<Rightarrow> int list \<Rightarrow> padding \<Rightarrow> dim \<Rightarrow> shape result" where
  "windowed_shape [b, d, h, w, c] [k0, kd, kh, kw, k4] [s0, sd, sh, sw, s4] p out =
     and_then (windowed_output_size d kd sd p) (\<lambda>d'.
     and_then (windowed_output_size h kh sh p) (\<lambda>h'.
     and_then (windowed_output_size w kw sw p) (\<lambda>w'.
       Inr [b, d', h', w', out])))"
| "windowed_shape _ _ _ _ _ = Inl ValueError"

text \<open>\<^verbatim>\<open>tf.nn.conv3d(input, kernel, strides, padding)\<close> with a kernel of shape
  \<open>[kd, kh, kw, in, out]\<close>: the input's channels must be the kernel's \<open>in\<close>.\<close>

fun tf_conv3d :: "shape \<Rightarrow> int list \<Rightarrow> int list \<Rightarrow> padding \<Rightarrow> shape result" where
  "tf_conv3d [b, d, h, w, c] [kd, kh, kw, fin, fout] strides p =
     (if c \<noteq> None \<and> c \<noteq> Some fin then Inl ValueError
      else windowed_shape [b, d, h, w, c] [1, kd, kh, kw, 1] strides p (Some fout))"
| "tf_conv3d _ _ _ _ = Inl ValueError"

text \<open>\<^verbatim>\<open>tf.nn.max_pool3d\<close> and \<^verbatim>\<open>tf.nn.avg_pool3d\<close>: the channels are unchanged.\<close>

fun tf_pool3d :: "shape \<Rightarrow> int list \<Rightarrow> int list \<Rightarrow> padding \<Rightarrow> shape result" where
  "tf_pool3d [b, d, h, w, c] ksize strides p = windowed_shape [b, d, h, w, c] ksize strides p c"
| "tf_pool3d _ _ _ _ = Inl ValueError"

text \<open>
  \<^verbatim>\<open>tf.concat(axis=4, values=(x, y))\<close> of two rank 5 tensors: the first four dimensions
  must agree where both are known, the channels add up.
\<close>

definition merge_dim :: "dim \<Rightarrow> dim \<Rightarrow> dim result" where
  "merge_dim a b =
     (case a of
        None \<Rightarrow> Inr b
      | Some m \<Rightarrow> (case b of None \<Rightarrow> Inr a | Some n \<Rightarrow> if m = n then Inr a else Inl ValueError))"

definition add_dim :: "dim \<Rightarrow> dim \<Rightarrow> dim" where
  "add_dim a b = (case a of None \<Rightarrow> None | Some m \<Rightarrow> (case b of None \<Rightarrow> None | Some n \<Rightarrow> Some (m + n)))"

fun tf_concat4 :: "shape \<Rightarrow> shape \<Rightarrow> shape result" where
  "tf_concat4 [b, d, h, w, c] [b', d', h', w', c'] =
     and_then (merge_dim b b') (\<lambda>b2.
     and_then (merge_dim d d') (\<lambda>d2.
     and_then (merge_dim h h') (\<lambda>h2.
     and_then (merge_dim w w') (\<lambda>w2.
       Inr [b2, d2, h2, w2, add_dim c c']))))"
| "tf_concat4 _ _ = Inl ValueError"

text \<open>Python's \<^verbatim>\<open>xs[i]\<close>: a negative index counts from the end, out of range raises.\<close>

definition py_index :: "'a list \<Rightarrow> int \<Rightarrow> 'a result" where
  "py_index xs i =
     (if 0 \<le> i \<and> i < int (length xs) then Inr (xs ! nat i)
      else if i < 0 \<and> - int (length xs) \<le> i then Inr (xs ! nat (int (length xs) + i))
      else Inl IndexError)"

text \<open>
  \<^verbatim>\<open>tf.reshape(x, [-1, c])\<close>: with every dimension of \<open>x\<close> known the first dimension
  is the number of elements divided by \<open>c\<close> (which must divide it); with an unknown
  dimension it is unknown.
\<close>

definition tf_reshape2 :: "shape \<Rightarrow> int \<Rightarrow> shape result" where
  "tf_reshape2 s c =
     (if list_all (\<lambda>d. d \<noteq> None) s
      then (let total = prod_list (map (\<lambda>d. case d of None \<Rightarrow> 1 | Some n \<Rightarrow> n) s)
            in if c \<le> 0 \<or> total mod c \<noteq> 0 then Inl ValueError
               else Inr [Some (total div c), Some c])
      else if c < 0 then Inl ValueError else Inr [None, Some c])"

text \<open>\<^verbatim>\<open>tf.matmul(x, w)\<close> of rank 2 tensors: the inner dimensions must agree.\<close>

fun tf_matmul :: "shape \<Rightarrow> int list \<Rightarrow> shape result" where
  "tf_matmul [m, k] [k', n] =
     (if k \<noteq> None \<and> k \<noteq> Some k' then Inl ValueError else Inr [m, Some n])"
| "tf_matmul _ _ = Inl ValueError"

section \<open>The network object\<close>

text \<open>
  What \<^verbatim>\<open>DenseNet3D.__init__\<close> reads from its data provider, and the attributes it
  stores on \<^verbatim>\<open>self\<close>.
\<close>

record data_provider =
  data_shape :: "int list"
  n_classes :: int

record densenet =
  provider :: data_provider
  depth :: int
  growth_rate :: int
  first_output_features :: int
  total_blocks :: int
  layers_per_block :: int
  bc_mode :: bool
  reduction :: double
  keep_prob :: real
  weight_decay :: real
  nesterov_momentum :: real
  model_type :: string
  dataset_name :: string
  should_save_logs :: bool
  should_save_model :: bool
  renew_logs :: bool
  batches_step :: int

subsection \<open>LayerOps\<close>

text \<open>
  \<^verbatim>\<open>conv3d(self, _input, out_features, kernel_size, strides, padding)\<close>: the kernel
  variable of shape \<open>[k, k, k, in_features, out_features]\<close>, then the convolution.
\<close>

definition conv3d :: "tensor \<Rightarrow> int \<Rightarrow> int \<Rightarrow> int list \<Rightarrow> padding \<Rightarrow> built result" where
  "conv3d inp out_features kernel_size strides pad =
     and_then (get_shape inp) (\<lambda>shp.
     and_then (py_index shp (- 1)) (\<lambda>c.
     and_then (int_of_dim c) (\<lambda>in_features.
     and_then (tf_get_variable ''kernel''
         [kernel_size, kernel_size, kernel_size, in_features, out_features]
         Variance_scaling) (\<lambda>kernel.
     and_then (tf_conv3d shp
         [kernel_size, kernel_size, kernel_size, in_features, out_features]
         strides pad) (\<lambda>out.
       Inr (Some out, [kernel, Scope Conv3D_names [Op (Conv3D_op strides pad) out]]))))))"

text \<open>
  \<^verbatim>\<open>if not x: x = default\<close> for an optional integer parameter: the default is taken
  when the parameter is omitted (\<^verbatim>\<open>None\<close>) and also when it is 0.
\<close>

definition or_default :: "int option \<Rightarrow> int \<Rightarrow> int" where
  "or_default x dflt = (case x of None \<Rightarrow> dflt | Some v \<Rightarrow> if v = 0 then dflt else v)"

text \<open>
  \<^verbatim>\<open>pool(self, _input, k, d, width_k, type, k_stride, d_stride, k_stride_width)\<close>.
  The code compares \<^verbatim>\<open>type is 'max'\<close> and \<^verbatim>\<open>type is 'avg'\<close>: the test is the
  identity of the string objects, not the equality of their characters. The callers in
  this file leave the type at its default, the literal \<^verbatim>\<open>'avg'\<close>. For any other
  object the function returns \<^verbatim>\<open>None\<close> and adds nothing to the graph.
\<close>

definition pool ::
  "tensor \<Rightarrow> int \<Rightarrow> int \<Rightarrow> int option \<Rightarrow> py_string \<Rightarrow> int option \<Rightarrow> int option
     \<Rightarrow> int option \<Rightarrow> built result" where
  "pool inp k d width_k0 ptype k_stride0 d_stride0 k_stride_width0 =
     (let width_k = or_default width_k0 k;
          ksize = [1, d, k, width_k, 1];
          k_stride = or_default k_stride0 k;
          k_stride_width = or_default k_stride_width0 k_stride;
          d_stride = or_default d_stride0 d;
          strides = [1, d_stride, k_stride, k_stride_width, 1];
          pad = SAME
      in if is_literal ptype ''max'' then
           and_then (as_tensor inp) (\<lambda>shp.
           and_then (tf_pool3d shp ksize strides pad) (\<lambda>out.
             Inr (Some out, [Op (Max_pool3d_op ksize strides pad) out])))
         else if is_literal ptype ''avg'' then
           and_then (as_tensor inp) (\<lambda>shp.
           and_then (tf_pool3d shp ksize strides pad) (\<lambda>out.
             Inr (Some out, [Op (Avg_pool3d_op ksize strides pad) out])))
         else Inr (None, []))"

definition batch_norm :: "tensor \<Rightarrow> built result" where
  "batch_norm inp =
     and_then (as_tensor inp) (\<lambda>shp.
       Inr (Some shp, [Scope Batch_normalization_names [Op Batch_norm_op shp]]))"

definition relu :: "tensor \<Rightarrow> built result" where
  "relu inp =
     and_then (as_tensor inp) (\<lambda>shp. Inr (Some shp, [Scope ReLU_names [Op Relu_op shp]]))"

text \<open>
  \<^verbatim>\<open>dropout(self, _input)\<close>: with \<open>keep_prob < 1\<close> a conditional on the training flag,
  otherwise the input itself and nothing added to the graph.
\<close>

definition dropout :: "densenet \<Rightarrow> tensor \<Rightarrow> built result" where
  "dropout self inp =
     (if keep_prob self < 1 then
        and_then (as_tensor inp) (\<lambda>shp.
          Inr (Some shp, [Scope Dropout_names [Op (Dropout_cond_op (keep_prob self)) shp]]))
      else Inr (inp, []))"

text \<open>Running one step after another: the second step's nodes follow the first's.\<close>

definition then_build :: "built result \<Rightarrow> (tensor \<Rightarrow> built result) \<Rightarrow> built result" where
  "then_build r f =
     and_then r (\<lambda>(t, ns). and_then (f t) (\<lambda>(t', ns'). Inr (t', ns @ ns')))"

text \<open>A \<^verbatim>\<open>with tf.variable_scope(name):\<close> or \<^verbatim>\<open>with tf.name_scope(name):\<close> block.\<close>

definition in_scope :: "scope_name \<Rightarrow> built result \<Rightarrow> built result" where
  "in_scope name r = and_then r (\<lambda>(t, ns). Inr (t, [Scope name ns]))"

subsection \<open>DenseBlockBuilder\<close>

definition composite_function :: "densenet \<Rightarrow> tensor \<Rightarrow> int \<Rightarrow> int \<Rightarrow> built result" where
  "composite_function self inp out_features kernel_size =
     in_scope Composite_function_scope
       (then_build (then_build (then_build
          (batch_norm inp)
          relu)
          (\<lambda>output. conv3d output out_features kernel_size [1, 1, 1, 1, 1] SAME))
          (dropout self))"

definition bottleneck :: "densenet \<Rightarrow> tensor \<Rightarrow> int \<Rightarrow> built result" where
  "bottleneck self inp out_features =
     in_scope Bottleneck_scope
       (then_build (then_build (then_build
          (batch_norm inp)
          relu)
          (\<lambda>output. let inter_features = out_features * 4
                    in conv3d output inter_features 1 [1, 1, 1, 1, 1] VALID))
          (dropout self))"

text \<open>\<^verbatim>\<open>tf.concat(axis=4, values=(_input, comp_out))\<close> inside the name scope "concat".\<close>

definition concat4 :: "tensor \<Rightarrow> tensor \<Rightarrow> built result" where
  "concat4 x y =
     and_then (as_tensor x) (\<lambda>sx.
     and_then (as_tensor y) (\<lambda>sy.
     and_then (tf_concat4 sx sy) (\<lambda>out.
       Inr (Some out, [Scope Concat_names [Op (Concat_op 4) out]]))))"

definition add_internal_layer :: "densenet \<Rightarrow> tensor \<Rightarrow> int \<Rightarrow> built result" where
  "add_internal_layer self inp growth =
     then_build
       (if \<not> bc_mode self then composite_function self inp growth 3
        else then_build (bottleneck self inp growth)
               (\<lambda>bottleneck_out. composite_function self bottleneck_out growth 3))
       (\<lambda>comp_out. concat4 inp comp_out)"

text \<open>
  \<^verbatim>\<open>add_block\<close>: \<open>for layer in range(layers_per_block)\<close>, each layer in its own
  variable scope \<open>layer_<n>\<close>, the output of one layer the input of the next.
\<close>

fun add_block_loop :: "densenet \<Rightarrow> int \<Rightarrow> int list \<Rightarrow> tensor \<Rightarrow> built result" where
  "add_block_loop self growth [] output = Inr (output, [])"
| "add_block_loop self growth (layer # layers) output =
     then_build (in_scope (Layer layer) (add_internal_layer self output growth))
       (add_block_loop self growth layers)"

definition add_block :: "densenet \<Rightarrow> tensor \<Rightarrow> int \<Rightarrow> int \<Rightarrow> built result" where
  "add_block self inp growth n_layers = add_block_loop self growth (py_range n_layers) inp"

definition transition_layer :: "densenet \<Rightarrow> tensor \<Rightarrow> int \<Rightarrow> built result" where
  "transition_layer self inp pool_depth =
     and_then (get_shape inp) (\<lambda>shp.
     and_then (py_index shp (- 1)) (\<lambda>c.
     and_then (int_of_dim c) (\<lambda>channels.
     and_then (int_of_product channels (reduction self)) (\<lambda>out_features.
       then_build (composite_function self inp out_features 1)
         (\<lambda>output. in_scope Pooling_names
            (pool output 2 pool_depth None (Interned ''avg'') None None None))))))"

text \<open>
  \<^verbatim>\<open>trainsition_layer_to_classes\<close>: batch normalisation, ReLU, one pooling window over
  the whole remaining depth, height and width, then the fully connected layer.
\<close>

definition trainsition_layer_to_classes :: "densenet \<Rightarrow> tensor \<Rightarrow> built result" where
  "trainsition_layer_to_classes self inp =
     then_build (then_build (batch_norm inp) relu) (\<lambda>output.
       and_then (get_shape output) (\<lambda>shp.
       and_then (and_then (py_index shp (- 2)) int_of_dim) (\<lambda>last_pool_kernel_width.
       and_then (and_then (py_index shp (- 3)) int_of_dim) (\<lambda>last_pool_kernel_height.
       and_then (and_then (py_index shp 1) int_of_dim) (\<lambda>last_sequence_length.
       then_build
         (in_scope Pooling_names
            (pool output last_pool_kernel_height last_sequence_length
               (Some last_pool_kernel_width) (Interned ''avg'') None None
               (Some last_pool_kernel_width)))
         (\<lambda>pooled.
            and_then (get_shape pooled) (\<lambda>pshp.
            and_then (and_then (py_index pshp (- 1)) int_of_dim) (\<lambda>features_total.
            and_then (tf_reshape2 pshp features_total) (\<lambda>flat.
            and_then (tf_get_variable ''W'' [features_total, n_classes (provider self)] Xavier)
              (\<lambda>W.
            and_then (tf_get_variable ''bias'' [n_classes (provider self)] Zeros) (\<lambda>bias.
            and_then (tf_matmul flat [features_total, n_classes (provider self)]) (\<lambda>logits.
              Inr (Some logits,
                   [Op Reshape_op flat, W, bias, Op Matmul_op logits, Op Add_op logits])))))))))))))"

subsection \<open>NetworkGraph\<close>

text \<open>
  \<^verbatim>\<open>_define_inputs\<close>: the placeholder of the videos has the shape
  \<open>[None] + data_shape\<close>; a negative size is refused by TensorFlow.
\<close>

definition define_inputs :: "densenet \<Rightarrow> tensor result" where
  "define_inputs self =
     (if list_ex (\<lambda>d. d < 0) (data_shape (provider self)) \<or> n_classes (provider self) < 0
      then Inl ValueError
      else Inr (Some (None # map Some (data_shape (provider self)))))"

text \<open>
  The loop of \<^verbatim>\<open>_build_graph\<close> over \<open>range(total_blocks)\<close>: a block, and a transition
  layer with \<open>pool_depth = 2\<close> unless the block is the last one.
\<close>

fun build_blocks :: "densenet \<Rightarrow> int list \<Rightarrow> tensor \<Rightarrow> built result" where
  "build_blocks self [] output = Inr (output, [])"
| "build_blocks self (block # blocks) output =
     then_build
       (then_build
          (in_scope (Block block)
             (add_block self output (growth_rate self) (layers_per_block self)))
          (\<lambda>output'.
             if block \<noteq> total_blocks self - 1
             then in_scope (Transition_after_block block)
                    (let pool_depth = 2 in transition_layer self output' pool_depth)
             else Inr (output', [])))
       (build_blocks self blocks)"

text \<open>
  The rest of \<^verbatim>\<open>_build_graph\<close> after the logits: the prediction, the cross entropy,
  the L2 loss, the optimizer's training step and the accuracy. The logits are the tensor
  handed back.
\<close>

definition objective :: "densenet \<Rightarrow> tensor \<Rightarrow> built result" where
  "objective self logits =
     and_then (as_tensor logits) (\<lambda>shp.
       case shp of
         [m, n] \<Rightarrow>
           Inr (logits,
                [Op Softmax_op shp, Op Softmax_cross_entropy_op [m], Op Reduce_mean_op [],
                 Op L2_loss_sum_op [], Op (Momentum_minimize_op (nesterov_momentum self)) [],
                 Op Equal_argmax_op [m], Op Reduce_mean_op []])
       | _ \<Rightarrow> Inl ValueError)"

definition build_graph :: "densenet \<Rightarrow> tensor \<Rightarrow> built result" where
  "build_graph self videos =
     then_build (then_build (then_build
       (in_scope Initial_convolution
          (then_build (conv3d videos (first_output_features self) 7 [1, 1, 2, 2, 1] SAME)
             (\<lambda>output. pool output 3 3 None (Interned ''avg'') (Some 2) (Some 1) None)))
       (build_blocks self (py_range (total_blocks self))))
       (\<lambda>output. in_scope Transition_to_classes (trainsition_layer_to_classes self output)))
       (objective self)"

text \<open>
  \<^verbatim>\<open>DenseNet3D.__init__\<close>: the attributes, then \<^verbatim>\<open>_define_inputs\<close> and
  \<^verbatim>\<open>_build_graph\<close>. The result is the object and the graph with its logits. The
  messages it prints, the session it opens and the count of the parameters it prints
  depend on nothing but these and are left out.
\<close>

definition init ::
  "data_provider \<Rightarrow> int \<Rightarrow> int \<Rightarrow> int \<Rightarrow> real \<Rightarrow> string \<Rightarrow> real \<Rightarrow> real \<Rightarrow> string
     \<Rightarrow> bool \<Rightarrow> bool \<Rightarrow> bool \<Rightarrow> double \<Rightarrow> bool \<Rightarrow> (densenet \<times> built) result" where
  "init data_provider' growth_rate' depth' total_blocks' keep_prob' dataset weight_decay'
        nesterov_momentum' model_type' should_save_logs' should_save_model' renew_logs'
        reduction' bc_mode' =
     and_then (py_floordiv (depth' - (total_blocks' + 1)) total_blocks') (\<lambda>lpb.
       let self = \<lparr> provider = data_provider',
                    depth = depth',
                    growth_rate = growth_rate',
                    first_output_features = growth_rate' * 2,
                    total_blocks = total_blocks',
                    layers_per_block = (if bc_mode' then lpb div 2 else lpb),
                    bc_mode = bc_mode',
                    reduction = reduction',
                    keep_prob = keep_prob',
                    weight_decay = weight_decay',
                    nesterov_momentum = nesterov_momentum',
                    model_type = model_type',
                    dataset_name = dataset,
                    should_save_logs = should_save_logs',
                    should_save_model = should_save_model',
                    renew_logs = renew_logs',
                    batches_step = 0 \<rparr>
       in and_then (define_inputs self) (\<lambda>videos.
          and_then (build_graph self videos) (\<lambda>g. Inr (self, g))))"

section \<open>Strings of Python\<close>

text \<open>\<^verbatim>\<open>s.split(sep)\<close> for a separator of one character: never an empty list.\<close>

fun py_split :: "char \<Rightarrow> string \<Rightarrow> string list" where
  "py_split sep [] = [[]]"
| "py_split sep (c # cs) =
     (if c = sep then [] # py_split sep cs
      else (case py_split sep cs of
              [] \<Rightarrow> [[c]]
            | piece # pieces \<Rightarrow> (c # piece) # pieces))"

text \<open>\<^verbatim>\<open>str(n)\<close> and \<^verbatim>\<open>"%d" % n\<close> of an integer: its decimal digits, with a minus sign
  when it is negative.\<close>

definition digit_char :: "nat \<Rightarrow> char" where
  "digit_char n = char_of (48 + n)"

fun str_nat :: "nat \<Rightarrow> string" where
  "str_nat n = (if n < 10 then [digit_char n] else str_nat (n div 10) @ [digit_char (n mod 10)])"

declare str_nat.simps [simp del]

definition py_str :: "int \<Rightarrow> string" where
  "py_str i = (if i < 0 then CHR ''-'' # str_nat (nat (- i)) else str_nat (nat i))"

text \<open>
  \<^verbatim>\<open>int(s)\<close> of a string: white space around the number is dropped, one sign is allowed,
  then decimal digits, with single underscores allowed between digits; anything else
  raises ValueError.
\<close>

definition is_space :: "char \<Rightarrow> bool" where
  "is_space c = (c \<in> set [CHR '' '', CHR 0x09, CHR 0x0A, CHR 0x0B, CHR 0x0C, CHR 0x0D,
                            CHR 0x1C, CHR 0x1D, CHR 0x1E, CHR 0x1F])"

definition is_digit :: "char \<Rightarrow> bool" where
  "is_digit c = ((48::nat) \<le> of_char c \<and> of_char c \<le> (57::nat))"

definition digit_val :: "char \<Rightarrow> int" where
  "digit_val c = int (of_char c :: nat) - 48"

definition py_strip :: "string \<Rightarrow> string" where
  "py_strip s = rev (dropWhile is_space (rev (dropWhile is_space s)))"

text \<open>The digits after the sign: \<open>prev\<close> tells whether the character before was a digit,
  so that an underscore stands only between two digits.\<close>

fun parse_digits :: "int \<Rightarrow> bool \<Rightarrow> string \<Rightarrow> int result" where
  "parse_digits acc prev [] = (if prev then Inr acc else Inl ValueError)"
| "parse_digits acc prev (c # cs) =
     (if is_digit c then parse_digits (acc * 10 + digit_val c) True cs
      else if c = CHR ''_'' \<and> prev \<and> cs \<noteq> [] then parse_digits acc False cs
      else Inl ValueError)"

definition py_int_of_str :: "string \<Rightarrow> int result" where
  "py_int_of_str s =
     (case py_strip s of
        [] \<Rightarrow> Inl ValueError
      | c # cs \<Rightarrow>
          if c = CHR ''-'' then and_then (parse_digits 0 False cs) (\<lambda>n. Inr (- n))
          else if c = CHR ''+'' then parse_digits 0 False cs
          else parse_digits 0 False (c # cs))"

section \<open>Training, evaluation and checkpoints\<close>

text \<open>
  The result of \<^verbatim>\<open>np.mean\<close> over the per-batch values: the sum divided by the count,
  and NaN (with a warning, no exception) for an empty list. The per-batch values are
  taken as real numbers.
\<close>

datatype np_float = NaN | Finite real

definition np_mean :: "real list \<Rightarrow> np_float" where
  "np_mean xs = (if xs = [] then NaN else Finite (sum_list xs / real (length xs)))"

text \<open>What the code prints, one constructor for each \<^verbatim>\<open>print\<close> with formatted values and
  \<open>Text\<close> for the fixed lines.\<close>

datatype message =
    Text string
  | Successfully_load_model string int
  | Train_epoch int
  | Decrease_learning_rate real
  | Mean_metrics np_float np_float
  | Time_per_epoch
  | Total_training_time

text \<open>
  The collaborators of the training loop, at their interface: a data set with
  \<^verbatim>\<open>num_examples\<close> and \<^verbatim>\<open>next_batch(batch_size)\<close>, which hands out a batch and moves
  on; \<^verbatim>\<open>sess.run\<close> of the training step on a batch with a learning rate, which
  updates the parameters and gives the loss and the accuracy of the batch; and
  \<^verbatim>\<open>sess.run\<close> of the loss and the accuracy alone.
\<close>

record ('p, 'd, 'b) env =
  num_examples :: "'d \<Rightarrow> int"
  next_batch :: "'d \<Rightarrow> int \<Rightarrow> 'b \<times> 'd"
  run_train_step :: "'p \<Rightarrow> 'b \<Rightarrow> real \<Rightarrow> 'p \<times> real \<times> real"
  run_eval :: "'p \<Rightarrow> 'b \<Rightarrow> real \<times> real"

text \<open>
  The state the training loop works on: the object, the parameters held by the session,
  the two data sets of the provider, the summaries written, the checkpoint directories
  (for a directory, the \<^verbatim>\<open>model_checkpoint_path\<close> of its checkpoint state), the
  checkpoint files, and the output printed.
\<close>

record ('p, 'd) session =
  net :: densenet
  params :: 'p
  train_data :: 'd
  validation_data :: 'd
  summaries :: "(string \<times> np_float \<times> int) list"
  checkpoint_dirs :: "string \<rightharpoonup> string"
  checkpoint_files :: "string \<rightharpoonup> 'p"
  stdout :: "message list"

datatype split = Train_split | Validation_split

definition get_data :: "('p, 'd) session \<Rightarrow> split \<Rightarrow> 'd" where
  "get_data st sp = (case sp of Train_split \<Rightarrow> train_data st | Validation_split \<Rightarrow> validation_data st)"

definition set_data :: "('p, 'd) session \<Rightarrow> split \<Rightarrow> 'd \<Rightarrow> ('p, 'd) session" where
  "set_data st sp d =
     (case sp of Train_split \<Rightarrow> st\<lparr>train_data := d\<rparr> | Validation_split \<Rightarrow> st\<lparr>validation_data := d\<rparr>)"

definition print :: "message \<Rightarrow> ('p, 'd) session \<Rightarrow> ('p, 'd) session" where
  "print m st = st\<lparr>stdout := stdout st @ [m]\<rparr>"

subsection \<open>ModelLifecycle\<close>

definition model_identifier :: "densenet \<Rightarrow> string" where
  "model_identifier self =
     model_type self @ ''_growth_rate='' @ py_str (growth_rate self) @
     ''_depth='' @ py_str (depth self) @ ''_dataset_'' @ dataset_name self @
     ''_total_block='' @ py_str (total_blocks self)"

text \<open>\<^verbatim>\<open>save_path\<close>: the pair of the directory and the path of the model in it.\<close>

definition save_path :: "densenet \<Rightarrow> string \<times> string" where
  "save_path self =
     (let dir = ''saves/'' @ model_identifier self
      in (dir, dir @ ''/'' @ ''model.chkpt''))"

text \<open>
  \<^verbatim>\<open>save_model(global_step)\<close>: the saver writes the parameters to the model path with
  \<open>-<global_step>\<close> appended and makes it the latest checkpoint of the directory.
\<close>

definition save_model :: "('p, 'd) session \<Rightarrow> int option \<Rightarrow> ('p, 'd) session" where
  "save_model st global_step =
     (let (dir, model_path) = save_path (net st);
          path = (case global_step of
                    None \<Rightarrow> model_path
                  | Some n \<Rightarrow> model_path @ ''-'' @ py_str n)
      in st\<lparr>checkpoint_files := (checkpoint_files st)(path \<mapsto> params st),
            checkpoint_dirs := (checkpoint_dirs st)(dir \<mapsto> path)\<rparr>)"


text \<open>\<^verbatim>\<open>log_loss_accuracy\<close>: the line printed when asked for, and the two summaries.\<close>

definition log_loss_accuracy ::
  "('p, 'd) session \<Rightarrow> np_float \<Rightarrow> np_float \<Rightarrow> int \<Rightarrow> string \<Rightarrow> bool \<Rightarrow> ('p, 'd) session" where
  "log_loss_accuracy st loss accuracy epoch prefix should_print =
     (let st1 = (if should_print then print (Mean_metrics loss accuracy) st else st)
      in st1\<lparr>summaries := summaries st1 @
               [(''loss_'' @ prefix, loss, epoch), (''accuracy_'' @ prefix, accuracy, epoch)]\<rparr>)"

subsection \<open>TrainingLoop\<close>

type_synonym ('p, 'd) running = "('p, 'd) session \<times> real list \<times> real list"

text \<open>
  The body of the loop of \<^verbatim>\<open>train_one_epoch\<close>: one batch of \<open>batch_size\<close> examples
  from the data set, one training step on it, the loss and accuracy appended to the
  lists, and with \<open>should_save_logs\<close> the step counter and the per-batch summaries.
\<close>

definition train_batch ::
  "('p, 'd, 'b) env \<Rightarrow> split \<Rightarrow> int \<Rightarrow> real \<Rightarrow> ('p, 'd) running \<Rightarrow> ('p, 'd) running" where
  "train_batch e sp batch_size learning_rate = (\<lambda>(st, total_loss, total_accuracy).
     let (batch, data') = next_batch e (get_data st sp) batch_size;
         (params', loss, accuracy) = run_train_step e (params st) batch learning_rate;
         st1 = (set_data st sp data')\<lparr>params := params'\<rparr>;
         st2 = (if should_save_logs (net st1)
                then let st' = st1\<lparr>net := (net st1)\<lparr>batches_step := batches_step (net st1) + 1\<rparr>\<rparr>
                     in log_loss_accuracy st' (Finite loss) (Finite accuracy)
                          (batches_step (net st')) ''per_batch'' False
                else st1)
     in (st2, total_loss @ [loss], total_accuracy @ [accuracy]))"

fun train_batches ::
  "('p, 'd, 'b) env \<Rightarrow> split \<Rightarrow> int \<Rightarrow> real \<Rightarrow> int list \<Rightarrow> ('p, 'd) running \<Rightarrow> ('p, 'd) running"
  where
  "train_batches e sp batch_size learning_rate [] acc = acc"
| "train_batches e sp batch_size learning_rate (i # rest) acc =
     train_batches e sp batch_size learning_rate rest
       (train_batch e sp batch_size learning_rate acc)"

definition train_one_epoch ::
  "('p, 'd, 'b) env \<Rightarrow> ('p, 'd) session \<Rightarrow> split \<Rightarrow> int \<Rightarrow> real
     \<Rightarrow> (('p, 'd) session \<times> np_float \<times> np_float) result" where
  "train_one_epoch e st sp batch_size learning_rate =
     and_then (py_floordiv (num_examples e (get_data st sp)) batch_size) (\<lambda>n.
       let (st', total_loss, total_accuracy) =
             train_batches e sp batch_size learning_rate (py_range n) (st, [], [])
       in Inr (st', np_mean total_loss, np_mean total_accuracy))"

text \<open>The body of the loop of \<^verbatim>\<open>test\<close>: a batch and its loss and accuracy; the
  parameters are not touched.\<close>

definition test_batch ::
  "('p, 'd, 'b) env \<Rightarrow> split \<Rightarrow> int \<Rightarrow> ('p, 'd) running \<Rightarrow> ('p, 'd) running" where
  "test_batch e sp batch_size = (\<lambda>(st, total_loss, total_accuracy).
     let (batch, data') = next_batch e (get_data st sp) batch_size;
         (loss, accuracy) = run_eval e (params st) batch;
         st1 = set_data st sp data'
     in (st1, total_loss @ [loss], total_accuracy @ [accuracy]))"

fun test_batches ::
  "('p, 'd, 'b) env \<Rightarrow> split \<Rightarrow> int \<Rightarrow> int list \<Rightarrow> ('p, 'd) running \<Rightarrow> ('p, 'd) running" where
  "test_batches e sp batch_size [] acc = acc"
| "test_batches e sp batch_size (i # rest) acc =
     test_batches e sp batch_size rest (test_batch e sp batch_size acc)"

definition test ::
  "('p, 'd, 'b) env \<Rightarrow> ('p, 'd) session \<Rightarrow> split \<Rightarrow> int
     \<Rightarrow> (('p, 'd) session \<times> np_float \<times> np_float) result" where
  "test e st sp batch_size =
     and_then (py_floordiv (num_examples e (get_data st sp)) batch_size) (\<lambda>n.
       let (st', total_loss, total_accuracy) =
             test_batches e sp batch_size (py_range n) (st, [], [])
       in Inr (st', np_mean total_loss, np_mean total_accuracy))"

text \<open>The training parameters \<^verbatim>\<open>train_all_epochs\<close> reads; \<open>validation_set\<close> is read
  with \<^verbatim>\<open>.get('validation_set', False)\<close> and may be absent.\<close>

record train_params =
  n_epochs :: int
  initial_learning_rate :: real
  batch_size :: int
  reduce_lr_epoch_1 :: int
  reduce_lr_epoch_2 :: int
  validation_set :: "bool option"

text \<open>
  The learning rate of an epoch, as the loop computes it at the start of each epoch from
  \<open>initial_learning_rate\<close>, and whether the decrease is announced.
\<close>

definition epoch_learning_rate :: "train_params \<Rightarrow> int \<Rightarrow> real \<times> bool" where
  "epoch_learning_rate tp epoch =
     (let learning_rate = initial_learning_rate tp
      in if epoch \<ge> reduce_lr_epoch_1 tp \<and> epoch < reduce_lr_epoch_2 tp
         then (learning_rate / 10, True)
         else if epoch \<ge> reduce_lr_epoch_2 tp
         then (learning_rate / 100, True)
         else (learning_rate, False))"

text \<open>The body of the loop of \<^verbatim>\<open>train_all_epochs\<close> for one epoch.\<close>

definition train_epoch ::
  "('p, 'd, 'b) env \<Rightarrow> train_params \<Rightarrow> int \<Rightarrow> ('p, 'd) session \<Rightarrow> ('p, 'd) session result"
  where
  "train_epoch e tp epoch st0 =
     (let st1 = print (Train_epoch epoch) st0;
          (learning_rate, decreased) = epoch_learning_rate tp epoch;
          st2 = (if decreased then print (Decrease_learning_rate learning_rate) st1 else st1);
          st3 = print (Text ''Training...'') st2
      in and_then (train_one_epoch e st3 Train_split (batch_size tp) learning_rate)
           (\<lambda>(st4, loss, acc).
              let st5 = (if should_save_logs (net st4)
                         then log_loss_accuracy st4 loss acc epoch ''train'' True else st4)
              in and_then
                   (if validation_set tp = Some True
                    then and_then
                           (test e (print (Text ''Validation...'') st5) Validation_split
                              (batch_size tp))
                           (\<lambda>(st6, vloss, vacc).
                              Inr (if should_save_logs (net st6)
                                   then log_loss_accuracy st6 vloss vacc epoch ''valid'' True
                                   else st6))
                    else Inr st5)
                   (\<lambda>st7.
                      let st8 = print Time_per_epoch st7
                      in Inr (if should_save_model (net st8)
                              then save_model st8 (Some epoch) else st8))))"



section \<open>A network for the examples\<close>

text \<open>A DenseNet-BC with growth rate 12, depth 22 and three blocks of three layers, on videos of shape
  \<open>[8, 32, 32, 3]\<close> with two classes.\<close>

definition example_net :: densenet where
  "example_net = \<lparr> provider = \<lparr> data_shape = [8, 32, 32, 3], n_classes = 2 \<rparr>,
     depth = 22, growth_rate = 12, first_output_features = 24, total_blocks = 3,
     layers_per_block = 3, bc_mode = True, reduction = Double 1 (- 1), keep_prob = 1,
     weight_decay = 1 / 10000, nesterov_momentum = 9 / 10, model_type = ''DenseNet-BC'',
     dataset_name = ''UCF101'', should_save_logs = False, should_save_model = True,
     renew_logs = False, batches_step = 0 \<rparr>"

definition example_provider :: data_provider where
  "example_provider = \<lparr> data_shape = [8, 32, 32, 3], n_classes = 2 \<rparr>"

section \<open>The order of the blocks, in the words of the specification\<close>

text \<open>
  The specification's account of the loop over the blocks, to be compared with
  \<open>build_blocks\<close>: every block is built by \<open>add_block\<close>, and after every block but the
  last one comes a transition layer with \<open>pool_depth = 2\<close>. Here "the last one" is the
  last element of the list; the code tests the index against \<open>total_blocks - 1\<close>.
\<close>

fun blocks_then_transitions :: "densenet \<Rightarrow> int list \<Rightarrow> tensor \<Rightarrow> built result" where
  "blocks_then_transitions self [] output = Inr (output, [])"
| "blocks_then_transitions self [block] output =
     in_scope (Block block) (add_block self output (growth_rate self) (layers_per_block self))"
| "blocks_then_transitions self (block # following # blocks) output =
     then_build
       (then_build
          (in_scope (Block block)
             (add_block self output (growth_rate self) (layers_per_block self)))
          (\<lambda>output'. in_scope (Transition_after_block block) (transition_layer self output' 2)))
       (blocks_then_transitions self (following # blocks))"

text \<open>The names of the scopes at the top level of a list of nodes, in order.\<close>

fun top_scopes :: "node list \<Rightarrow> scope_name list" where
  "top_scopes [] = []"
| "top_scopes (Scope name inner # ns) = name # top_scopes ns"
| "top_scopes (_ # ns) = top_scopes ns"

section \<open>Observing the training loop\<close>

text \<open>The epochs announced in the output, in order: each epoch of the loop of
  \<open>train_all_epochs\<close> starts by printing its number.\<close>

fun epochs_printed :: "message list \<Rightarrow> int list" where
  "epochs_printed [] = []"
| "epochs_printed (Train_epoch k # ms) = k # epochs_printed ms"
| "epochs_printed (_ # ms) = epochs_printed ms"

section \<open>Examples for the training loop\<close>

text \<open>An example: data sets are a number of examples and a position; a batch is the
  position it was drawn at; the parameters are the list of the learning rates applied.\<close>

definition example_env :: "(real list, int \<times> nat, nat) env" where
  "example_env = \<lparr> num_examples = fst,
                    next_batch = (\<lambda>d n. (snd d, (fst d, snd d + 1))),
                    run_train_step = (\<lambda>p b lr. (p @ [lr], 1 / (1 + real b), 1 / 2)),
                    run_eval = (\<lambda>p b. (1 / 4, 3 / 4)) \<rparr>"

definition example_session :: "(real list, int \<times> nat) session" where
  "example_session = \<lparr> net = example_net, params = [], train_data = (10, 0),
                        validation_data = (3, 0), summaries = [],
                        checkpoint_dirs = Map.empty, checkpoint_files = Map.empty,
                        stdout = [] \<rparr>"

text \<open>Training parameters, and a session that finds the checkpoint of epoch 7 written by
  an earlier run, with freshly initialised parameters.\<close>

definition example_params :: train_params where
  "example_params = \<lparr> n_epochs = 9, initial_learning_rate = 1 / 10, batch_size = 4,
                       reduce_lr_epoch_1 = 50, reduce_lr_epoch_2 = 75,
                       validation_set = Some True \<rparr>"


section \<open>Properties of the layers\<close>

subsection \<open>Sequencing\<close>

lemma and_then_Inl [simp]: "and_then (Inl e) f = Inl e"
  by (simp add: and_then_def)

lemma and_then_Inr [simp]: "and_then (Inr a) f = f a"
  by (simp add: and_then_def)

lemma and_then_eq_Inr: "and_then r f = Inr y \<longleftrightarrow> (\<exists>a. r = Inr a \<and> f a = Inr y)"
  by (cases r) simp_all

lemma then_build_Inl [simp]: "then_build (Inl e) f = Inl e"
  by (simp add: then_build_def)

lemma then_build_Inr [simp]:
  "then_build (Inr (t, ns)) f = and_then (f t) (\<lambda>(t', ns'). Inr (t', ns @ ns'))"
  by (simp add: then_build_def)

lemma then_build_eq_Inr:
  "then_build r f = Inr (t, ns) \<longleftrightarrow>
     (\<exists>t1 n1 n2. r = Inr (t1, n1) \<and> f t1 = Inr (t, n2) \<and> ns = n1 @ n2)"
  by (cases r) (auto simp: and_then_eq_Inr)

lemma in_scope_Inl [simp]: "in_scope s (Inl e) = Inl e"
  by (simp add: in_scope_def)

lemma in_scope_Inr [simp]: "in_scope s (Inr (t, ns)) = Inr (t, [Scope s ns])"
  by (simp add: in_scope_def)

lemma in_scope_eq_Inr:
  "in_scope s r = Inr (t, ns) \<longleftrightarrow> (\<exists>n1. r = Inr (t, n1) \<and> ns = [Scope s n1])"
  by (cases r) auto

lemma windowed_same_stride1 [simp]: "windowed_output_size n k 1 SAME = Inr n"
  by (simp add: windowed_output_size_def split: option.splits)

lemma windowed_valid_k1 [simp]:
  "windowed_output_size n 1 1 VALID =
     (case n of None \<Rightarrow> Inr None | Some m \<Rightarrow> if m < 1 then Inl ValueError else Inr (Some m))"
  by (simp add: windowed_output_size_def split: option.splits)

lemma batch_norm_Some [simp]:
  "batch_norm (Some s) = Inr (Some s, [Scope Batch_normalization_names [Op Batch_norm_op s]])"
  by (simp add: batch_norm_def as_tensor_def)

lemma relu_Some [simp]:
  "relu (Some s) = Inr (Some s, [Scope ReLU_names [Op Relu_op s]])"
  by (simp add: relu_def as_tensor_def)

lemma dropout_Some:
  "dropout self (Some s) =
     Inr (Some s, if keep_prob self < 1
                  then [Scope Dropout_names [Op (Dropout_cond_op (keep_prob self)) s]] else [])"
  by (simp add: dropout_def as_tensor_def)

lemma conv3d_same:
  "conv3d (Some [b, d, h, w, Some c]) out k [1, 1, 1, 1, 1] SAME =
     (if k < 0 \<or> c < 0 \<or> out < 0 then Inl ValueError
      else Inr (Some [b, d, h, w, Some out],
             [Variable ''kernel'' [k, k, k, c, out] Variance_scaling,
              Scope Conv3D_names [Op (Conv3D_op [1, 1, 1, 1, 1] SAME) [b, d, h, w, Some out]]]))"
  by (simp add: conv3d_def get_shape_def py_index_def int_of_dim_def tf_get_variable_def)

lemma composite_function_5d:
  "composite_function self (Some [b, d, h, w, Some c]) out k =
     (if k < 0 \<or> c < 0 \<or> out < 0 then Inl ValueError
      else Inr (Some [b, d, h, w, Some out],
        [Scope Composite_function_scope
          ([Scope Batch_normalization_names [Op Batch_norm_op [b, d, h, w, Some c]],
            Scope ReLU_names [Op Relu_op [b, d, h, w, Some c]],
            Variable ''kernel'' [k, k, k, c, out] Variance_scaling,
            Scope Conv3D_names [Op (Conv3D_op [1, 1, 1, 1, 1] SAME) [b, d, h, w, Some out]]]
           @ (if keep_prob self < 1
              then [Scope Dropout_names [Op (Dropout_cond_op (keep_prob self)) [b, d, h, w, Some out]]]
              else []))]))"
  by (simp add: composite_function_def conv3d_same dropout_Some)

subsection \<open>Channel growth in a dense block\<close>

lemma merge_dim_same [simp]: "merge_dim x x = Inr x"
  by (simp add: merge_dim_def split: option.splits)

lemma concat4_5d:
  "concat4 (Some [b, d, h, w, Some c]) (Some [b, d, h, w, Some g]) =
     Inr (Some [b, d, h, w, Some (c + g)],
          [Scope Concat_names [Op (Concat_op 4) [b, d, h, w, Some (c + g)]]])"
  by (simp add: concat4_def as_tensor_def add_dim_def)

lemma conv3d_valid_k1_Inr:
  assumes "conv3d (Some [b, d, h, w, Some c]) out 1 [1, 1, 1, 1, 1] VALID = Inr (t, ns)"
  shows "t = Some [b, d, h, w, Some out] \<and> 0 \<le> c \<and> 0 \<le> out \<and>
         ns = [Variable ''kernel'' [1, 1, 1, c, out] Variance_scaling,
               Scope Conv3D_names [Op (Conv3D_op [1, 1, 1, 1, 1] VALID) [b, d, h, w, Some out]]]"
  using assms
  by (auto simp: conv3d_def get_shape_def py_index_def int_of_dim_def tf_get_variable_def
      and_then_eq_Inr split: if_splits option.splits)

lemma bottleneck_Inr:
  assumes "bottleneck self (Some [b, d, h, w, Some c]) g = Inr (t, ns)"
  shows "t = Some [b, d, h, w, Some (g * 4)] \<and> 0 \<le> c \<and> 0 \<le> g \<and>
         ns = [Scope Bottleneck_scope
          ([Scope Batch_normalization_names [Op Batch_norm_op [b, d, h, w, Some c]],
            Scope ReLU_names [Op Relu_op [b, d, h, w, Some c]],
            Variable ''kernel'' [1, 1, 1, c, g * 4] Variance_scaling,
            Scope Conv3D_names [Op (Conv3D_op [1, 1, 1, 1, 1] VALID) [b, d, h, w, Some (g * 4)]]]
           @ (if keep_prob self < 1
              then [Scope Dropout_names [Op (Dropout_cond_op (keep_prob self)) [b, d, h, w, Some (g * 4)]]]
              else []))]"
proof -
  from assms obtain t1 n1 where
    c: "conv3d (Some [b, d, h, w, Some c]) (g * 4) 1 [1, 1, 1, 1, 1] VALID = Inr (t1, n1)"
    by (auto simp: bottleneck_def in_scope_eq_Inr then_build_eq_Inr and_then_eq_Inr)
  note r = conv3d_valid_k1_Inr [OF c]
  from assms c r show ?thesis
    by (auto simp: bottleneck_def dropout_Some)
qed

lemma add_internal_layer_Inr:
  assumes "add_internal_layer self (Some [b, d, h, w, Some c]) g = Inr (t, ns)"
  shows "t = Some [b, d, h, w, Some (c + g)] \<and> 0 \<le> c \<and> 0 \<le> g"
proof (cases "bc_mode self")
  case False
  with assms show ?thesis
    by (auto simp: add_internal_layer_def composite_function_5d concat4_5d split: if_splits)
next
  case True
  with assms obtain t1 n1 where
    b: "bottleneck self (Some [b, d, h, w, Some c]) g = Inr (t1, n1)"
    by (auto simp: add_internal_layer_def then_build_eq_Inr)
  note r = bottleneck_Inr [OF b]
  from assms True b r show ?thesis
    by (auto simp: add_internal_layer_def composite_function_5d concat4_5d split: if_splits)
qed

lemma add_block_loop_Inr:
  "add_block_loop self g ls (Some [b, d, h, w, Some c]) = Inr (t, ns) \<Longrightarrow>
     t = Some [b, d, h, w, Some (c + int (length ls) * g)]"
proof (induction ls arbitrary: c ns)
  case Nil
  then show ?case by simp
next
  case (Cons l ls)
  from Cons.prems obtain t1 n1 n2 where
    a: "add_internal_layer self (Some [b, d, h, w, Some c]) g = Inr (t1, n1)" and
    r: "add_block_loop self g ls t1 = Inr (t, n2)"
    by (auto simp: then_build_eq_Inr in_scope_eq_Inr)
  from add_internal_layer_Inr [OF a] have t1: "t1 = Some [b, d, h, w, Some (c + g)]" by simp
  from Cons.IH [OF r [unfolded t1]] show ?case
    by (simp add: algebra_simps)
qed

lemma then_build_assoc:
  "then_build (then_build r f) k = then_build r (\<lambda>t. then_build (f t) k)"
  by (auto simp: then_build_def and_then_def split: sum.splits prod.splits)

lemma then_build_return [simp]: "then_build r (\<lambda>t. Inr (t, [])) = r"
  by (auto simp: then_build_def and_then_def split: sum.splits)

lemma add_block_loop_append:
  "add_block_loop self g (xs @ ys) t =
     then_build (add_block_loop self g xs t) (add_block_loop self g ys)"
proof (induction xs arbitrary: t)
  case Nil
  show ?case by (simp add: and_then_def split: sum.splits)
next
  case (Cons x xs)
  have "add_block_loop self g (xs @ ys) =
          (\<lambda>t. then_build (add_block_loop self g xs t) (add_block_loop self g ys))"
    by (rule ext) (rule Cons.IH)
  then show ?case by (simp add: then_build_assoc)
qed

lemma py_range_take: "0 \<le> i \<Longrightarrow> i \<le> n \<Longrightarrow> take (nat i) (py_range n) = py_range i"
  by (simp add: py_range_def take_map)

lemma length_py_range [simp]: "length (py_range n) = nat n"
  by (simp add: py_range_def)



lemma add_block_loop_length:
  "add_block_loop self g ls t = Inr (out, ns) \<Longrightarrow> length ns = length ls"
proof (induction ls arbitrary: t ns)
  case Nil
  then show ?case by simp
next
  case (Cons l ls)
  then show ?case
    by (auto simp: then_build_eq_Inr in_scope_eq_Inr)
qed

lemma add_block_loop_split:
  assumes "add_block_loop self g (xs @ ys) t = Inr (out, ns)"
  shows "\<exists>t1. add_block_loop self g xs t = Inr (t1, take (length xs) ns) \<and>
              add_block_loop self g ys t1 = Inr (out, drop (length xs) ns)"
proof -
  from assms obtain t1 n1 n2 where
    x: "add_block_loop self g xs t = Inr (t1, n1)" and
    y: "add_block_loop self g ys t1 = Inr (out, n2)" and ns: "ns = n1 @ n2"
    by (auto simp: add_block_loop_append then_build_eq_Inr)
  from add_block_loop_length [OF x] have "length n1 = length xs" .
  with x y ns show ?thesis by auto
qed

lemma py_range_split:
  "0 \<le> i \<Longrightarrow> i < n \<Longrightarrow> py_range n = py_range i @ i # map int [Suc (nat i)..<nat n]"
proof -
  assume i: "0 \<le> i" "i < n"
  then have "[0..<nat n] = [0..<nat i] @ nat i # [Suc (nat i)..<nat n]"
    by (metis le0 nat_less_eq_zless upt_add_eq_append upt_conv_Cons le_add_diff_inverse less_imp_le_nat)
  then show ?thesis using i by (simp add: py_range_def)
qed


lemma add_internal_layer_detail:
  assumes "add_internal_layer self (Some [b, d, h, w, Some c]) g = Inr (t, lns)"
  shows "t = Some [b, d, h, w, Some (c + g)] \<and>
         (\<exists>bns cns.
            (if bc_mode self
             then bottleneck self (Some [b, d, h, w, Some c]) g
                    = Inr (Some [b, d, h, w, Some (4 * g)], bns) \<and>
                  composite_function self (Some [b, d, h, w, Some (4 * g)]) g 3
                    = Inr (Some [b, d, h, w, Some g], cns)
             else bns = [] \<and>
                  composite_function self (Some [b, d, h, w, Some c]) g 3
                    = Inr (Some [b, d, h, w, Some g], cns)) \<and>
            lns = bns @ cns @ [Scope Concat_names [Op (Concat_op 4) [b, d, h, w, Some (c + g)]]])"
proof (cases "bc_mode self")
  case False
  with assms show ?thesis
    by (auto simp: add_internal_layer_def composite_function_5d concat4_5d split: if_splits)
next
  case True
  with assms obtain t1 n1 where
    b: "bottleneck self (Some [b, d, h, w, Some c]) g = Inr (t1, n1)"
    by (auto simp: add_internal_layer_def then_build_eq_Inr)
  from bottleneck_Inr [OF b] have t1: "t1 = Some [b, d, h, w, Some (4 * g)]" and g: "0 \<le> g"
    by (simp_all add: mult.commute)
  from assms True b t1 g show ?thesis
    by (auto simp: add_internal_layer_def composite_function_5d concat4_5d split: if_splits)
qed

text \<open>
  Claim C1. In a block that \<open>add_block\<close> has built from a feature map with \<open>c\<close>
  channels, the feature map after the \<open>i\<close>-th call of \<open>add_internal_layer\<close> is what
  \<open>add_block\<close> builds with \<open>i\<close> layers: its nodes are the first \<open>i\<close> layers of the
  block and it has \<open>c + i * g\<close> channels, the other dimensions unchanged. The next layer
  (scope \<open>layer_i\<close>) takes that feature map, produces \<open>g\<close> channels with the composite
  function of kernel size 3 and concatenates them to its input along axis 4. With
  \<open>bc_mode\<close> the growth is the same; the layer only puts the bottleneck, whose output
  has \<open>4 * g\<close> channels, before the composite function.
\<close>

theorem add_block_channel_growth:
  assumes built: "add_block self (Some [b, d, h, w, Some c]) g n = Inr (out, ns)"
      and i: "0 \<le> i" "i \<le> n"
  shows "add_block self (Some [b, d, h, w, Some c]) g i
           = Inr (Some [b, d, h, w, Some (c + i * g)], take (nat i) ns) \<and>
         (i < n \<longrightarrow>
           (\<exists>lns bns cns.
              ns ! nat i = Scope (Layer i) lns \<and>
              add_internal_layer self (Some [b, d, h, w, Some (c + i * g)]) g
                = Inr (Some [b, d, h, w, Some (c + (i + 1) * g)], lns) \<and>
              (if bc_mode self
               then bottleneck self (Some [b, d, h, w, Some (c + i * g)]) g
                      = Inr (Some [b, d, h, w, Some (4 * g)], bns) \<and>
                    composite_function self (Some [b, d, h, w, Some (4 * g)]) g 3
                      = Inr (Some [b, d, h, w, Some g], cns)
               else bns = [] \<and>
                    composite_function self (Some [b, d, h, w, Some (c + i * g)]) g 3
                      = Inr (Some [b, d, h, w, Some g], cns)) \<and>
              lns = bns @ cns @
                [Scope Concat_names [Op (Concat_op 4) [b, d, h, w, Some (c + (i + 1) * g)]]]))"
proof -
  let ?x = "Some [b, d, h, w, Some c]"
  have pre: "py_range n = py_range i @ drop (nat i) (py_range n)"
    using py_range_take [OF i] by (metis append_take_drop_id)
  from built have "add_block_loop self g (py_range i @ drop (nat i) (py_range n)) ?x = Inr (out, ns)"
    using pre by (simp add: add_block_def)
  from add_block_loop_split [OF this] obtain t1 where
    p: "add_block_loop self g (py_range i) ?x = Inr (t1, take (nat i) ns)" and
    r: "add_block_loop self g (drop (nat i) (py_range n)) t1 = Inr (out, drop (nat i) ns)"
    by auto
  from add_block_loop_Inr [OF p] i have t1: "t1 = Some [b, d, h, w, Some (c + i * g)]"
    by simp
  have first: "add_block self ?x g i = Inr (Some [b, d, h, w, Some (c + i * g)], take (nat i) ns)"
    using p t1 by (simp add: add_block_def)
  have second: ?thesis if lt: "i < n"
  proof -
    have d: "drop (nat i) (py_range n) = i # map int [Suc (nat i)..<nat n]"
      using py_range_split [OF i(1) lt] i by simp
    from r obtain t2 lns n3 where
      a: "add_internal_layer self t1 g = Inr (t2, lns)" and
      dn: "drop (nat i) ns = Scope (Layer i) lns # n3"
      unfolding d by (auto simp: then_build_eq_Inr in_scope_eq_Inr)
    from add_block_loop_length [OF built [unfolded add_block_def]] lt i
    have len: "nat i < length ns" by simp
    have nth: "ns ! nat i = Scope (Layer i) lns"
      using dn len by (metis Cons_nth_drop_Suc list.inject)
    from add_internal_layer_detail [OF a [unfolded t1]] a t1 nth first lt
    show ?thesis
      by (auto simp: algebra_simps)
  qed
  show ?thesis
  proof (cases "i < n")
    case True
    then show ?thesis by (rule second)
  next
    case False
    with first show ?thesis by simp
  qed
qed

theorem add_block_channel_growth_witness:
  "\<exists>ns. add_block example_net (Some [None, Some 8, Some 8, Some 8, Some 24]) 12 3
           = Inr (Some [None, Some 8, Some 8, Some 8, Some 60], ns) \<and>
        add_block example_net (Some [None, Some 8, Some 8, Some 8, Some 24]) 12 2
           = Inr (Some [None, Some 8, Some 8, Some 8, Some 48], take 2 ns) \<and>
        (\<exists>lns. ns ! 2 = Scope (Layer 2) lns \<and>
           add_internal_layer example_net (Some [None, Some 8, Some 8, Some 8, Some 48]) 12
             = Inr (Some [None, Some 8, Some 8, Some 8, Some 60], lns))"
proof -
  obtain ns where b: "add_block example_net (Some [None, Some 8, Some 8, Some 8, Some 24]) 12 3
      = Inr (Some [None, Some 8, Some 8, Some 8, Some 60], ns)"
    by (simp add: add_block_def py_range_def upt_conv_Cons add_internal_layer_def example_net_def
      composite_function_5d concat4_5d bottleneck_def conv3d_def get_shape_def
      py_index_def int_of_dim_def tf_get_variable_def dropout_Some)
  from add_block_channel_growth [OF b, of 2] b show ?thesis
    by auto
qed

subsection \<open>Pooling\<close>

text \<open>
  The defaults of \<open>pool\<close>: an omitted \<open>width_k\<close> is \<open>k\<close>, an omitted \<open>k_stride\<close> is
  \<open>k\<close>, an omitted \<open>k_stride_width\<close> is \<open>k_stride\<close> and an omitted \<open>d_stride\<close> is
  \<open>d\<close>. With the parameters given (and not 0) and the type the interned literal, the call
  is one pooling operation with the window \<open>[1, d, k, width_k, 1]\<close>, the strides
  \<open>[1, d_stride, k_stride, k_stride_width, 1]\<close> and SAME padding. For any other type object
  nothing is added to the graph and the result is \<^verbatim>\<open>None\<close>.
\<close>

lemma pool_defaults:
  "pool inp k d None ty ks ds ksw = pool inp k d (Some k) ty ks ds ksw \<and>
   pool inp k d wk ty None ds ksw = pool inp k d wk ty (Some k) ds ksw \<and>
   pool inp k d wk ty (Some s) ds None = pool inp k d wk ty (Some s) ds (Some s) \<and>
   pool inp k d wk ty ks None ksw = pool inp k d wk ty ks (Some d) ksw \<and>
   (wk' \<noteq> 0 \<and> s' \<noteq> 0 \<and> sd' \<noteq> 0 \<and> sw' \<noteq> 0 \<longrightarrow>
      pool (Some shp) k d (Some wk') (Interned ''max'') (Some s') (Some sd') (Some sw') =
        and_then (tf_pool3d shp [1, d, k, wk', 1] [1, sd', s', sw', 1] SAME) (\<lambda>out.
          Inr (Some out, [Op (Max_pool3d_op [1, d, k, wk', 1] [1, sd', s', sw', 1] SAME) out])) \<and>
      pool (Some shp) k d (Some wk') (Interned ''avg'') (Some s') (Some sd') (Some sw') =
        and_then (tf_pool3d shp [1, d, k, wk', 1] [1, sd', s', sw', 1] SAME) (\<lambda>out.
          Inr (Some out, [Op (Avg_pool3d_op [1, d, k, wk', 1] [1, sd', s', sw', 1] SAME) out]))) \<and>
   (ty \<noteq> Interned ''max'' \<and> ty \<noteq> Interned ''avg'' \<longrightarrow>
      pool inp k d wk ty ks ds ksw = Inr (None, []))"
  by (simp add: pool_def or_default_def Let_def as_tensor_def is_literal_def)

lemma windowed_same_Some:
  "0 < s \<Longrightarrow> windowed_output_size (Some m) k s SAME = Inr (Some ((m + s - 1) div s))"
  by (simp add: windowed_output_size_def)

text \<open>
  Claim C9. The type of the pooling is tested by identity. With the interned literal
  \<^verbatim>\<open>'avg'\<close> or \<^verbatim>\<open>'max'\<close> the call is the average or the max pooling with the window
  and the strides of the defaults. With a string that has the same characters but is
  another object (one made at run time) the tests fail: nothing is added to the graph and
  the result is \<^verbatim>\<open>None\<close>, where the claim promises the pooling.
\<close>

theorem pool_type_by_identity:
  "pool (Some [None, Some 8, Some 16, Some 16, Some 24]) 3 3 None (Not_interned ''avg'')
       (Some 2) (Some 1) None
     = Inr (None, []) \<and>
   pool (Some [None, Some 8, Some 16, Some 16, Some 24]) 3 3 None (Not_interned ''max'')
       (Some 2) (Some 1) None
     = Inr (None, []) \<and>
   pool (Some [None, Some 8, Some 16, Some 16, Some 24]) 3 3 None (Interned ''avg'')
       (Some 2) (Some 1) None
     = Inr (Some [None, Some 8, Some 8, Some 8, Some 24],
            [Op (Avg_pool3d_op [1, 3, 3, 3, 1] [1, 1, 2, 2, 1] SAME)
               [None, Some 8, Some 8, Some 8, Some 24]]) \<and>
   pool (Some [None, Some 8, Some 16, Some 16, Some 24]) 3 3 None (Interned ''max'')
       (Some 2) (Some 1) None
     = Inr (Some [None, Some 8, Some 8, Some 8, Some 24],
            [Op (Max_pool3d_op [1, 3, 3, 3, 1] [1, 1, 2, 2, 1] SAME)
               [None, Some 8, Some 8, Some 8, Some 24]])"
  by (simp add: pool_def or_default_def Let_def as_tensor_def is_literal_def
      windowed_output_size_def)

subsection \<open>The product of the channels and the reduction\<close>

lemma bit_length_le: "n < 2 ^ k \<Longrightarrow> bit_length n \<le> k"
proof (induction n arbitrary: k rule: bit_length.induct)
  case (1 n)
  show ?case
  proof (cases "n = 0")
    case True
    then show ?thesis by (simp add: bit_length.simps)
  next
    case False
    with "1.prems" obtain j where k: "k = Suc j" by (cases k) auto
    with "1.prems" have "n div 2 < 2 ^ j" by auto
    from "1.IH" [OF False this] k False show ?thesis
      by (subst bit_length.simps) simp
  qed
qed

lemma less_bit_length: "n < 2 ^ bit_length n"
proof (induction n rule: bit_length.induct)
  case (1 n)
  show ?case
  proof (cases "n = 0")
    case True
    then show ?thesis by simp
  next
    case False
    from "1.IH" [OF False] have "n div 2 < 2 ^ bit_length (n div 2)" .
    then have "n < 2 * 2 ^ bit_length (n div 2)" by linarith
    with False show ?thesis by (subst bit_length.simps) simp
  qed
qed

lemma bit_length_eq: "2 ^ k \<le> n \<Longrightarrow> n < 2 ^ Suc k \<Longrightarrow> bit_length n = Suc k"
proof (induction k arbitrary: n)
  case 0
  then have "n = 1" by simp
  then show ?case by (simp add: bit_length.simps)
next
  case (Suc k)
  from Suc.prems have "2 ^ k \<le> n div 2" "n div 2 < 2 ^ Suc k" by auto
  from Suc.IH [OF this] Suc.prems show ?case
    by (subst bit_length.simps) auto
qed

lemma round_half_even_0 [simp]: "round_half_even n 0 = n"
  by (simp add: round_half_even_def)

lemma round_half_even_cases:
  "round_half_even n k = n div 2 ^ k \<or> round_half_even n k = n div 2 ^ k + 1"
  by (simp add: round_half_even_def Let_def)

lemma to_double_exact:
  assumes "\<bar>n\<bar> < 2 ^ 53" "- 1074 \<le> e" "e \<le> 971"
  shows "to_double n e = Double n e"
proof -
  have "nat \<bar>n\<bar> < 2 ^ 53" using assms(1) by (simp add: nat_less_iff)
  then have b: "bit_length (nat \<bar>n\<bar>) \<le> 53" by (rule bit_length_le)
  then have k: "max (int (bit_length (nat \<bar>n\<bar>)) - 53) (max (- 1074 - e) 0) = 0"
    using assms(2) by simp
  show ?thesis
    unfolding to_double_def k Let_def using b assms(3) by simp
qed

lemma int_of_product_exact:
  assumes "0 \<le> c" "0 < m" "c * m < 2 ^ 53" "- 1074 \<le> e" "e \<le> 0"
  shows "int_of_product c (Double m e) = Inr (c * m div 2 ^ nat (- e))"
proof -
  have "c \<le> c * m" using assms(1,2) by (simp add: mult_le_cancel_left1)
  with assms have c: "\<bar>c\<bar> < 2 ^ 53" by simp
  have cm: "\<bar>c * m\<bar> < 2 ^ 53" using assms by (simp add: abs_mult)
  have f: "float_of_int c = Inr (Double c 0)"
    using to_double_exact [OF c, of 0] by (simp add: float_of_int_def)
  have p: "to_double (c * m) e = Double (c * m) e"
    using to_double_exact [OF cm, of e] assms by simp
  have "0 \<le> c * m" using assms by simp
  with f p assms show ?thesis
    by (cases "e = 0") (simp_all add: int_of_product_def py_int_of_float_def)
qed

lemma floor_double_value:
  assumes "e \<le> 0"
  shows "\<lfloor>real_of_int c * double_value m e\<rfloor> = c * m div 2 ^ nat (- e)"
proof -
  have "real_of_int c * double_value m e = real_of_int (c * m) / real_of_int (2 ^ nat (- e))"
    using assms by (cases "e = 0") (simp_all add: double_value_def)
  then show ?thesis by (simp only: floor_divide_of_int_eq)
qed

lemma div_succ_cases:
  assumes "0 < (j::int)"
  shows "(a + 1) div j = a div j \<or> (a + 1) div j = a div j + 1"
proof -
  have "a div j \<le> (a + 1) div j" by (rule zdiv_mono1) (use assms in simp_all)
  moreover have "(a + 1) div j \<le> (a + j) div j" by (rule zdiv_mono1) (use assms in simp_all)
  moreover have "(a + j) div j = a div j + 1" using assms by simp
  ultimately show ?thesis by linarith
qed

lemma div_less_bound:
  assumes "0 < (b::int)" "n < c * b"
  shows "n div b < c"
proof (rule ccontr)
  assume "\<not> n div b < c"
  then have "c * b \<le> n div b * b" using assms(1) by (simp add: mult_right_mono)
  moreover have "n div b * b \<le> n"
    using div_mult_mod_eq [of n b] pos_mod_sign [OF assms(1), of n] by linarith
  ultimately show False using assms(2) by linarith
qed

text \<open>
  For fewer than \<open>2 ^ 53\<close> channels and a reduction \<open>m * 2 ^ e\<close> in \<open>(0, 1]\<close>, the
  truncated float product is the floor of the exact product, or one more when the
  rounding of the product reaches the next integer.
\<close>

lemma int_of_product_bounds:
  assumes c: "0 \<le> c" "c < 2 ^ 53" and m: "0 < m" "m \<le> 2 ^ nat (- e)"
      and e: "- 1074 \<le> e" "e \<le> 0"
  shows "int_of_product c (Double m e) = Inr (c * m div 2 ^ nat (- e)) \<or>
         int_of_product c (Double m e) = Inr (c * m div 2 ^ nat (- e) + 1)"
proof -
  define n where "n = c * m"
  define E where "E = nat (- e)"
  define L where "L = bit_length (nat n)"
  define k where "k = nat (int L - 53)"
  have n0: "0 \<le> n" using c m by (simp add: n_def)
  have f: "float_of_int c = Inr (Double c 0)"
    using to_double_exact [of c 0] c by (simp add: float_of_int_def)
  have "n \<le> c * 2 ^ E" using c m by (simp add: n_def E_def mult_left_mono)
  also have "\<dots> < 2 ^ 53 * 2 ^ E" using c by simp
  finally have nE: "n < 2 ^ (53 + E)" by (simp add: power_add)
  then have "nat n < 2 ^ (53 + E)" using n0 by (simp add: nat_less_iff)
  then have LE: "L \<le> 53 + E" unfolding L_def by (rule bit_length_le)
  then have kE: "k \<le> E" by (simp add: k_def)
  have kk: "max (int (bit_length (nat \<bar>n\<bar>)) - 53) (max (- 1074 - e) 0) = int k"
    using e n0 by (simp add: k_def L_def)
  define q where "q = round_half_even n k"
  have "nat n < 2 ^ L" unfolding L_def by (rule less_bit_length)
  then have nL: "n < 2 ^ L" using n0 by (simp add: nat_less_iff)
  have "L \<le> 53 + k" by (simp add: k_def)
  then have "(2::int) ^ L \<le> 2 ^ (53 + k)" by (intro power_increasing) simp_all
  with nL have "n < 2 ^ 53 * 2 ^ k" by (simp add: power_add)
  then have a53: "n div 2 ^ k < 2 ^ 53"
    by (intro div_less_bound) simp_all
  have a0: "0 \<le> n div 2 ^ k" using n0 by (simp add: pos_imp_zdiv_nonneg_iff)
  from round_half_even_cases [of n k]
  have qc: "q = n div 2 ^ k \<or> q = n div 2 ^ k + 1" by (simp add: q_def)
  with a53 a0 have q0: "0 \<le> q" and q54: "q < 2 ^ 54" by auto
  then have "nat \<bar>q\<bar> < 2 ^ 54" by (simp add: nat_less_iff)
  then have bq: "bit_length (nat \<bar>q\<bar>) \<le> 54" by (rule bit_length_le)
  have ek: "e + int k \<le> 0" using kE e by (simp add: E_def)
  have td: "to_double n e = Double q (e + int k)"
    unfolding to_double_def kk Let_def using bq ek by (simp add: q_def)
  have r: "int_of_product c (Double m e) =
      Inr (if 0 \<le> e + int k then q * 2 ^ nat (e + int k) else q div 2 ^ nat (- (e + int k)))"
    using q0 by (simp add: int_of_product_def f td py_int_of_float_def n_def [symmetric])
  have r': "int_of_product c (Double m e) = Inr (q div 2 ^ (E - k))"
  proof (cases "0 \<le> e + int k")
    case True
    with ek have z: "e + int k = 0" by simp
    then have "E = k" using e by (simp add: E_def)
    with r z show ?thesis by simp
  next
    case False
    then have "nat (- (e + int k)) = E - k" using kE e by (simp add: E_def)
    with r False show ?thesis by simp
  qed
  have s: "n div 2 ^ k div 2 ^ (E - k) = n div 2 ^ E"
  proof -
    have "(2::int) ^ E = 2 ^ k * 2 ^ (E - k)" using kE by (simp add: power_add [symmetric])
    then show ?thesis by (simp add: zdiv_zmult2_eq)
  qed
  have "q div 2 ^ (E - k) = n div 2 ^ E \<or> q div 2 ^ (E - k) = n div 2 ^ E + 1"
    using qc div_succ_cases [of "2 ^ (E - k)" "n div 2 ^ k"] s by auto
  with r' show ?thesis by (auto simp: n_def E_def)
qed

lemma double_value_le_1:
  assumes "0 < m" "double_value m e \<le> 1"
  shows "e \<le> 0 \<and> m \<le> 2 ^ nat (- e)"
proof (cases "0 < e")
  case True
  then obtain j where j: "nat e = Suc j" by (cases "nat e") auto
  have "(1::real) \<le> real_of_int m" using assms(1) by simp
  moreover have "(2::real) \<le> 2 ^ nat e" by (simp add: j)
  ultimately have "1 * 2 \<le> real_of_int m * 2 ^ nat e" by (intro mult_mono) simp_all
  with True assms(2) show ?thesis by (simp add: double_value_def)
next
  case False
  then have e: "e \<le> 0" by simp
  have "real_of_int m \<le> 2 ^ nat (- e)"
  proof (cases "e = 0")
    case True
    with assms(2) show ?thesis by (simp add: double_value_def)
  next
    case False
    with e assms(2) show ?thesis by (simp add: double_value_def divide_le_eq)
  qed
  then have "real_of_int m \<le> real_of_int (2 ^ nat (- e))" by simp
  then have "m \<le> 2 ^ nat (- e)" by (simp only: of_int_le_iff)
  with e show ?thesis by simp
qed

text \<open>
  The float nearest to 0.7 is \<open>3152519739159347 * 2 ^ -52\<close>, a little below 0.7; ten
  times it lies halfway between two floats and is rounded to 7. The float nearest to 0.29
  is \<open>5224175567749775 * 2 ^ -54\<close>, a little below 0.29; a hundred times it is rounded
  to a float below 29.
\<close>

lemma int_of_product_10_07: "int_of_product 10 (Double 3152519739159347 (- 52)) = Inr 7"
proof -
  have f: "float_of_int 10 = Inr (Double 10 0)"
    using to_double_exact [of 10 0] by (simp add: float_of_int_def)
  have b1: "bit_length 31525197391593470 = 55"
    by (rule bit_length_eq [of 54, simplified]) simp_all
  have b2: "bit_length 7881299347898368 = 53"
    by (rule bit_length_eq [of 52, simplified]) simp_all
  have t: "to_double 31525197391593470 (- 52) = Double 7881299347898368 (- 50)"
    by (simp add: to_double_def Let_def b1 b2 round_half_even_def)
  show ?thesis
    by (simp add: int_of_product_def f t py_int_of_float_def)
qed

lemma int_of_product_100_029: "int_of_product 100 (Double 5224175567749775 (- 54)) = Inr 28"
proof -
  have f: "float_of_int 100 = Inr (Double 100 0)"
    using to_double_exact [of 100 0] by (simp add: float_of_int_def)
  have b1: "bit_length 522417556774977500 = 59"
    by (rule bit_length_eq [of 58, simplified]) simp_all
  have b2: "bit_length 8162774324609023 = 53"
    by (rule bit_length_eq [of 52, simplified]) simp_all
  have t: "to_double 522417556774977500 (- 54) = Double 8162774324609023 (- 48)"
    by (simp add: to_double_def Let_def b1 b2 round_half_even_def)
  show ?thesis
    by (simp add: int_of_product_def f t py_int_of_float_def)
qed

subsection \<open>Transition layers\<close>

lemma pool_avg_defaults:
  "pool (Some [b, d, h, w, c]) 2 pd None (Interned ''avg'') None None None = Inr (out, ns) \<Longrightarrow>
     0 < pd \<and>
     out = Some [b, map_option (\<lambda>m. (m + pd - 1) div pd) d, map_option (\<lambda>m. (m + 1) div 2) h,
                 map_option (\<lambda>m. (m + 1) div 2) w, c] \<and>
     ns = [Op (Avg_pool3d_op [1, pd, 2, 2, 1] [1, pd, 2, 2, 1] SAME) (the out)]"
  by (auto simp: pool_def or_default_def Let_def as_tensor_def windowed_output_size_def
      is_literal_def and_then_eq_Inr split: if_splits option.splits)

text \<open>
  Against claim C5 as stated. With 10 channels and the reduction 0.7 the transition layer
  has 7 output channels, while the floor of 10 times the value of that float (which lies
  in \<open>(0, 1]\<close>) is 6: the product is rounded to a float before it is truncated. With 100
  channels and the reduction 0.29 it has 28 output channels, while the floor of 100 times
  the decimal number 0.29 is 29: the float nearest to 0.29 is below it.
\<close>

theorem transition_layer_rounds_up:
  "transition_layer (example_net\<lparr>reduction := Double 3152519739159347 (- 52)\<rparr>)
       (Some [None, Some 8, Some 8, Some 8, Some 10]) 2
     = Inr (Some [None, Some 4, Some 4, Some 4, Some 7],
            [Scope Composite_function_scope
               [Scope Batch_normalization_names
                  [Op Batch_norm_op [None, Some 8, Some 8, Some 8, Some 10]],
                Scope ReLU_names [Op Relu_op [None, Some 8, Some 8, Some 8, Some 10]],
                Variable ''kernel'' [1, 1, 1, 10, 7] Variance_scaling,
                Scope Conv3D_names
                  [Op (Conv3D_op [1, 1, 1, 1, 1] SAME) [None, Some 8, Some 8, Some 8, Some 7]]],
             Scope Pooling_names
               [Op (Avg_pool3d_op [1, 2, 2, 2, 1] [1, 2, 2, 2, 1] SAME)
                  [None, Some 4, Some 4, Some 4, Some 7]]]) \<and>
   \<lfloor>real_of_int 10 * double_value 3152519739159347 (- 52)\<rfloor> = 6 \<and>
   0 < double_value 3152519739159347 (- 52) \<and> double_value 3152519739159347 (- 52) \<le> 1 \<and>
   transition_layer (example_net\<lparr>reduction := Double 5224175567749775 (- 54)\<rparr>)
       (Some [None, Some 8, Some 8, Some 8, Some 100]) 2
     = Inr (Some [None, Some 4, Some 4, Some 4, Some 28],
            [Scope Composite_function_scope
               [Scope Batch_normalization_names
                  [Op Batch_norm_op [None, Some 8, Some 8, Some 8, Some 100]],
                Scope ReLU_names [Op Relu_op [None, Some 8, Some 8, Some 8, Some 100]],
                Variable ''kernel'' [1, 1, 1, 100, 28] Variance_scaling,
                Scope Conv3D_names
                  [Op (Conv3D_op [1, 1, 1, 1, 1] SAME) [None, Some 8, Some 8, Some 8, Some 28]]],
             Scope Pooling_names
               [Op (Avg_pool3d_op [1, 2, 2, 2, 1] [1, 2, 2, 2, 1] SAME)
                  [None, Some 4, Some 4, Some 4, Some 28]]]) \<and>
   \<bar>double_value 5224175567749775 (- 54) - 29 / 100\<bar> < 1 / 2 ^ 55 \<and>
   \<lfloor>real_of_int 100 * (29 / 100 :: real)\<rfloor> = 29"
proof -
  have a: "\<lfloor>real_of_int 10 * double_value 3152519739159347 (- 52)\<rfloor> = 6"
    "0 < double_value 3152519739159347 (- 52)" "double_value 3152519739159347 (- 52) \<le> 1"
    "\<bar>double_value 5224175567749775 (- 54) - 29 / 100\<bar> < 1 / 2 ^ 55"
    "\<lfloor>real_of_int 100 * (29 / 100 :: real)\<rfloor> = 29"
    by (simp_all add: double_value_def)
  have b: "transition_layer (example_net\<lparr>reduction := Double 3152519739159347 (- 52)\<rparr>)
       (Some [None, Some 8, Some 8, Some 8, Some 10]) 2
     = Inr (Some [None, Some 4, Some 4, Some 4, Some 7],
            [Scope Composite_function_scope
               [Scope Batch_normalization_names
                  [Op Batch_norm_op [None, Some 8, Some 8, Some 8, Some 10]],
                Scope ReLU_names [Op Relu_op [None, Some 8, Some 8, Some 8, Some 10]],
                Variable ''kernel'' [1, 1, 1, 10, 7] Variance_scaling,
                Scope Conv3D_names
                  [Op (Conv3D_op [1, 1, 1, 1, 1] SAME) [None, Some 8, Some 8, Some 8, Some 7]]],
             Scope Pooling_names
               [Op (Avg_pool3d_op [1, 2, 2, 2, 1] [1, 2, 2, 2, 1] SAME)
                  [None, Some 4, Some 4, Some 4, Some 7]]])"
    by (simp add: transition_layer_def get_shape_def py_index_def int_of_dim_def
        int_of_product_10_07 example_net_def composite_function_5d pool_def or_default_def
        as_tensor_def windowed_output_size_def is_literal_def Let_def)
  have c: "transition_layer (example_net\<lparr>reduction := Double 5224175567749775 (- 54)\<rparr>)
       (Some [None, Some 8, Some 8, Some 8, Some 100]) 2
     = Inr (Some [None, Some 4, Some 4, Some 4, Some 28],
            [Scope Composite_function_scope
               [Scope Batch_normalization_names
                  [Op Batch_norm_op [None, Some 8, Some 8, Some 8, Some 100]],
                Scope ReLU_names [Op Relu_op [None, Some 8, Some 8, Some 8, Some 100]],
                Variable ''kernel'' [1, 1, 1, 100, 28] Variance_scaling,
                Scope Conv3D_names
                  [Op (Conv3D_op [1, 1, 1, 1, 1] SAME) [None, Some 8, Some 8, Some 8, Some 28]]],
             Scope Pooling_names
               [Op (Avg_pool3d_op [1, 2, 2, 2, 1] [1, 2, 2, 2, 1] SAME)
                  [None, Some 4, Some 4, Some 4, Some 28]]])"
    by (simp add: transition_layer_def get_shape_def py_index_def int_of_dim_def
        int_of_product_100_029 example_net_def composite_function_5d pool_def or_default_def
        as_tensor_def windowed_output_size_def is_literal_def Let_def)
  from a b c show ?thesis by (simp only: simp_thms)
qed

text \<open>
  Claim C5, amended. For a feature map with \<open>c\<close> channels and a reduction in \<open>(0, 1]\<close>,
  a transition layer that is built runs the composite function with kernel size 1 and
  \<open>int(c * reduction)\<close> output features on its input, then one average pooling with window
  and strides \<open>[1, pool_depth, 2, 2, 1]\<close>: height and width are halved (rounded up) and the
  depth is divided by \<open>pool_depth\<close> (rounded up). The number of output channels is the
  truncation of the product rounded to a float. For fewer than \<open>2 ^ 53\<close> channels it is
  \<open>floor(c * reduction)\<close>, or one more when the rounding reaches the next integer; it is
  exactly \<open>floor(c * reduction)\<close> when the product needs no rounding, that is when \<open>c\<close>
  times the mantissa of the reduction is below \<open>2 ^ 53\<close> (as for the reductions 1.0 and
  0.5).
\<close>

theorem transition_layer_compression:
  assumes built: "transition_layer self (Some [b, d, h, w, Some c]) pool_depth = Inr (out, ns)"
      and red: "reduction self = Double m e" "0 < m" "- 1074 \<le> e" "double_value m e \<le> 1"
      and ch: "c < 2 ^ 53"
  shows "\<exists>f cns pooled.
           int_of_product c (reduction self) = Inr f \<and>
           (f = \<lfloor>real_of_int c * double_value m e\<rfloor> \<or>
            f = \<lfloor>real_of_int c * double_value m e\<rfloor> + 1) \<and>
           (c * m < 2 ^ 53 \<longrightarrow> f = \<lfloor>real_of_int c * double_value m e\<rfloor>) \<and>
           composite_function self (Some [b, d, h, w, Some c]) f 1
             = Inr (Some [b, d, h, w, Some f], cns) \<and>
           0 < pool_depth \<and>
           pooled = [b, map_option (\<lambda>m. (m + pool_depth - 1) div pool_depth) d,
                     map_option (\<lambda>m. (m + 1) div 2) h, map_option (\<lambda>m. (m + 1) div 2) w,
                     Some f] \<and>
           out = Some pooled \<and>
           ns = cns @ [Scope Pooling_names
                  [Op (Avg_pool3d_op [1, pool_depth, 2, 2, 1] [1, pool_depth, 2, 2, 1] SAME)
                     pooled]]"
proof -
  from built obtain f t1 cns pns where
    ip: "int_of_product c (reduction self) = Inr f" and
    cf: "composite_function self (Some [b, d, h, w, Some c]) f 1 = Inr (t1, cns)" and
    pl: "pool t1 2 pool_depth None (Interned ''avg'') None None None = Inr (out, pns)" and
    ns: "ns = cns @ [Scope Pooling_names pns]"
    by (auto simp: transition_layer_def get_shape_def py_index_def int_of_dim_def
        and_then_eq_Inr then_build_eq_Inr in_scope_eq_Inr)
  from cf have c0: "0 \<le> c" and t1: "t1 = Some [b, d, h, w, Some f]"
    by (auto simp: composite_function_5d split: if_splits)
  from double_value_le_1 [OF red(2) red(4)] have e0: "e \<le> 0" and me: "m \<le> 2 ^ nat (- e)"
    by simp_all
  note fl = floor_double_value [OF e0, of c m]
  from int_of_product_bounds [OF c0 ch red(2) me red(3) e0] ip
  have bnd: "f = \<lfloor>real_of_int c * double_value m e\<rfloor> \<or>
             f = \<lfloor>real_of_int c * double_value m e\<rfloor> + 1"
    unfolding red(1) fl by auto
  have ex: "f = \<lfloor>real_of_int c * double_value m e\<rfloor>" if "c * m < 2 ^ 53"
    using int_of_product_exact [OF c0 red(2) that red(3) e0] ip
    unfolding red(1) fl by simp
  from pool_avg_defaults [OF pl [unfolded t1]] cf t1 ns ip bnd ex show ?thesis
    by auto
qed

theorem transition_layer_compression_witness:
  "\<exists>ns. transition_layer example_net (Some [None, Some 8, Some 7, Some 7, Some 61]) 2
          = Inr (Some [None, Some 4, Some 4, Some 4, Some 30], ns)"
proof -
  let ?x = "Some [None, Some 8, Some 7, Some 7, Some (61::int)]"
  have ip: "int_of_product 61 (Double 1 (- 1)) = Inr 30"
    using int_of_product_exact [of 61 1 "- 1"] by simp
  obtain out ns where b: "transition_layer example_net ?x 2 = Inr (out, ns)"
    by (simp add: transition_layer_def get_shape_def py_index_def int_of_dim_def
        example_net_def ip composite_function_5d pool_def or_default_def
        as_tensor_def windowed_output_size_def is_literal_def Let_def)
  have r: "reduction example_net = Double 1 (- 1)" "(0::int) < 1" "- 1074 \<le> (- 1::int)"
      "double_value 1 (- 1) \<le> 1"
    by (simp_all add: example_net_def double_value_def)
  have c: "(61::int) < 2 ^ 53" by simp
  have fl: "\<lfloor>real_of_int 61 * double_value 1 (- 1)\<rfloor> = 30"
    by (simp add: double_value_def)
  from transition_layer_compression [OF b r c] b show ?thesis
    unfolding fl by auto
qed

section \<open>Construction\<close>

lemmas eval_defs = init_def py_floordiv_def define_inputs_def build_graph_def conv3d_def
  get_shape_def py_index_def int_of_dim_def tf_get_variable_def windowed_output_size_def
  pool_def or_default_def as_tensor_def Let_def py_range_def upt_conv_Cons
  add_block_def add_internal_layer_def composite_function_5d concat4_5d bottleneck_def
  dropout_Some transition_layer_def int_of_product_exact is_literal_def
  trainsition_layer_to_classes_def tf_reshape2_def objective_def example_provider_def


text \<open>
  Claim C2. For every network that \<open>__init__\<close> constructs, \<open>layers_per_block\<close> is
  \<open>(depth - (total_blocks + 1)) // total_blocks\<close>, divided once more by 2 (integer
  division) when \<open>bc_mode\<close> is true, and \<open>first_output_features\<close> is
  \<open>2 * growth_rate\<close>. With depth 13, three blocks and no bottleneck it is 3.
\<close>

theorem init_layers_per_block:
  assumes "init dp g dep tb kp ds wd nm mt ssl ssm rl red bc = Inr (self, gr)"
  shows "tb \<noteq> 0 \<and>
         layers_per_block self =
           (if bc then ((dep - (tb + 1)) div tb) div 2 else (dep - (tb + 1)) div tb) \<and>
         first_output_features self = 2 * g \<and>
         depth self = dep \<and> total_blocks self = tb \<and> bc_mode self = bc \<and> growth_rate self = g"
  using assms
  by (auto simp: init_def py_floordiv_def Let_def and_then_eq_Inr split: if_splits)

theorem init_layers_per_block_witness:
  "\<exists>self gr. init example_provider 12 13 3 1 ''UCF101'' (1 / 10000) (9 / 10) ''DenseNet''
                False True False (Double 1 0) False = Inr (self, gr) \<and>
             layers_per_block self = 3 \<and> first_output_features self = 24"
proof -
  obtain self gr where b: "init example_provider 12 13 3 1 ''UCF101'' (1 / 10000) (9 / 10)
      ''DenseNet'' False True False (Double 1 0) False = Inr (self, gr)"
    by (simp add: eval_defs)
  from init_layers_per_block [OF b] have "layers_per_block self = 3 \<and> first_output_features self = 24"
    by simp
  with b show ?thesis by blast
qed






section \<open>The order of graph construction\<close>

lemma build_blocks_Nil_fun: "build_blocks self [] = (\<lambda>t. Inr (t, []))"
  by (rule ext) simp

lemma build_blocks_refines:
  "total_blocks self - 1 \<notin> set (butlast bs) \<Longrightarrow> (bs \<noteq> [] \<Longrightarrow> last bs = total_blocks self - 1) \<Longrightarrow>
     build_blocks self bs x = blocks_then_transitions self bs x"
proof (induction self bs x rule: blocks_then_transitions.induct)
  case (1 self outp)
  show ?case by simp
next
  case (2 self block outp)
  then show ?case by (simp add: build_blocks_Nil_fun)
next
  case (3 self block following blocks outp)
  have "build_blocks self (following # blocks) = blocks_then_transitions self (following # blocks)"
  proof (rule ext)
    fix t
    show "build_blocks self (following # blocks) t = blocks_then_transitions self (following # blocks) t"
      using 3 by (intro "3.IH") auto
  qed
  moreover have "block \<noteq> total_blocks self - 1" using "3.prems" by auto
  ultimately show ?case by simp
qed

lemma py_range_butlast: "0 < n \<Longrightarrow> py_range n = py_range (n - 1) @ [n - 1]"
proof -
  assume n: "0 < n"
  then have "nat n = Suc (nat (n - 1))" by simp
  then have "[0..<nat n] = [0..<nat (n - 1)] @ [nat (n - 1)]" by simp
  with n show ?thesis by (simp add: py_range_def)
qed

lemma build_blocks_py_range:
  "build_blocks self (py_range (total_blocks self)) x =
     blocks_then_transitions self (py_range (total_blocks self)) x"
proof (cases "0 < total_blocks self")
  case True
  have "total_blocks self - 1 \<notin> set (py_range (total_blocks self - 1))"
    by (auto simp: py_range_def)
  with True show ?thesis
    by (intro build_blocks_refines) (simp_all add: py_range_butlast [OF True])
next
  case False
  then show ?thesis by (simp add: py_range_def)
qed

lemma top_scopes_append [simp]: "top_scopes (xs @ ys) = top_scopes xs @ top_scopes ys"
  by (induction xs rule: top_scopes.induct) simp_all

lemma blocks_then_transitions_scopes:
  "blocks_then_transitions self (bs @ [l]) x = Inr (out, ns) \<Longrightarrow>
     top_scopes ns = concat (map (\<lambda>k. [Block k, Transition_after_block k]) bs) @ [Block l]"
proof (induction bs arbitrary: x ns)
  case Nil
  then show ?case by (auto simp: in_scope_eq_Inr)
next
  case (Cons b bs)
  obtain f rest where fr: "bs @ [l] = f # rest" by (cases "bs @ [l]") auto
  from Cons.prems obtain t1 nb nt n2 where
    r: "blocks_then_transitions self (bs @ [l]) t1 = Inr (out, n2)" and
    ns: "ns = Scope (Block b) nb # Scope (Transition_after_block b) nt # n2"
    by (auto simp: fr then_build_eq_Inr in_scope_eq_Inr)
  from Cons.IH [OF r] ns show ?case by simp
qed


lemma tf_conv3d_Inr:
  assumes "tf_conv3d shp [kd, kh, kw, fin, fout] [1, 1, 2, 2, 1] SAME = Inr out"
  shows "\<exists>b d h w c. shp = [b, d, h, w, c] \<and> (c = None \<or> c = Some fin) \<and>
           out = [b, d, map_option (\<lambda>m. (m + 1) div 2) h, map_option (\<lambda>m. (m + 1) div 2) w,
                  Some fout]"
  using assms
  by (elim tf_conv3d.elims)
     (auto simp: windowed_output_size_def and_then_eq_Inr split: if_splits option.splits)

lemma initial_conv3d_Inr:
  assumes "conv3d videos f 7 [1, 1, 2, 2, 1] SAME = Inr (t, ns)"
  shows "\<exists>b d h w c conv_out. videos = Some [b, d, h, w, Some c] \<and>
           conv_out = [b, d, map_option (\<lambda>m. (m + 1) div 2) h,
                       map_option (\<lambda>m. (m + 1) div 2) w, Some f] \<and>
           t = Some conv_out \<and>
           ns = [Variable ''kernel'' [7, 7, 7, c, f] Variance_scaling,
                 Scope Conv3D_names [Op (Conv3D_op [1, 1, 2, 2, 1] SAME) conv_out]]"
proof -
  from assms obtain shp c out where
    v: "videos = Some shp" and c: "py_index shp (- 1) = Inr (Some c)" and
    tc: "tf_conv3d shp [7, 7, 7, c, f] [1, 1, 2, 2, 1] SAME = Inr out" and
    t: "t = Some out" and
    ns: "ns = [Variable ''kernel'' [7, 7, 7, c, f] Variance_scaling,
               Scope Conv3D_names [Op (Conv3D_op [1, 1, 2, 2, 1] SAME) out]]"
    by (auto simp: conv3d_def get_shape_def int_of_dim_def tf_get_variable_def and_then_eq_Inr
        split: option.splits if_splits)
  from tf_conv3d_Inr [OF tc] obtain b d h w c' where
    shp: "shp = [b, d, h, w, c']" and
    out: "out = [b, d, map_option (\<lambda>m. (m + 1) div 2) h, map_option (\<lambda>m. (m + 1) div 2) w, Some f]"
    by blast
  from c shp have "c' = Some c" by (simp add: py_index_def)
  with v shp out t ns show ?thesis by simp
qed

lemma initial_pool_Inr:
  assumes "pool (Some [b, d, h, w, c]) 3 3 None (Interned ''avg'') (Some 2) (Some 1) None
             = Inr (t, ns)"
  shows "t = Some [b, d, map_option (\<lambda>m. (m + 1) div 2) h, map_option (\<lambda>m. (m + 1) div 2) w, c] \<and>
         ns = [Op (Avg_pool3d_op [1, 3, 3, 3, 1] [1, 1, 2, 2, 1] SAME)
                 [b, d, map_option (\<lambda>m. (m + 1) div 2) h, map_option (\<lambda>m. (m + 1) div 2) w, c]]"
  using assms
  by (auto simp: pool_def or_default_def Let_def as_tensor_def windowed_output_size_def
      is_literal_def and_then_eq_Inr split: if_splits option.splits)

lemma objective_Inr:
  assumes "objective self t = Inr (t', ns)"
  shows "t' = t"
proof -
  from assms obtain shp where
    c: "(case shp of
           [m, n] \<Rightarrow>
             Inr (t, [Op Softmax_op shp, Op Softmax_cross_entropy_op [m], Op Reduce_mean_op [],
                      Op L2_loss_sum_op [], Op (Momentum_minimize_op (nesterov_momentum self)) [],
                      Op Equal_argmax_op [m], Op Reduce_mean_op []])
         | _ \<Rightarrow> Inl ValueError) = Inr (t', ns)"
    by (auto simp: objective_def and_then_eq_Inr)
  show ?thesis
  proof (cases shp)
    case Nil
    with c show ?thesis by simp
  next
    case (Cons m rest)
    note outer = this
    show ?thesis
    proof (cases rest)
      case Nil
      with c outer show ?thesis by simp
    next
      case (Cons n rest')
      with c outer show ?thesis by (cases rest') simp_all
    qed
  qed
qed

text \<open>
  Claim C4. A graph that \<open>_build_graph\<close> has built consists, in this order, of: the scope
  of the initial convolution, with a kernel of size 7, strides \<open>[1, 1, 2, 2, 1]\<close> and
  \<open>first_output_features\<close> output channels, followed by a pooling with window
  \<open>[1, 3, 3, 3, 1]\<close> and strides \<open>[1, 1, 2, 2, 1]\<close> (depth stride 1, spatial stride 2);
  the blocks \<open>0 .. total_blocks - 1\<close>, each built by \<open>add_block\<close>, with a transition
  layer with \<open>pool_depth = 2\<close> after every block but the last; the transition to the
  classes, which gives the logits; and the operations of the objective.
\<close>

theorem build_graph_order:
  assumes built: "build_graph self videos = Inr (logits, ns)"
  shows "\<exists>b d h w c conv_out pooled blocks_out bns cns ons.
           videos = Some [b, d, h, w, Some c] \<and>
           conv_out = [b, d, map_option (\<lambda>m. (m + 1) div 2) h,
                       map_option (\<lambda>m. (m + 1) div 2) w, Some (first_output_features self)] \<and>
           pooled = [b, d, map_option (\<lambda>m. (m + 1) div 2) (map_option (\<lambda>m. (m + 1) div 2) h),
                     map_option (\<lambda>m. (m + 1) div 2) (map_option (\<lambda>m. (m + 1) div 2) w),
                     Some (first_output_features self)] \<and>
           ns = Scope Initial_convolution
                  [Variable ''kernel'' [7, 7, 7, c, first_output_features self] Variance_scaling,
                   Scope Conv3D_names [Op (Conv3D_op [1, 1, 2, 2, 1] SAME) conv_out],
                   Op (Avg_pool3d_op [1, 3, 3, 3, 1] [1, 1, 2, 2, 1] SAME) pooled]
                # bns @ Scope Transition_to_classes cns # ons \<and>
           blocks_then_transitions self (py_range (total_blocks self)) (Some pooled)
             = Inr (blocks_out, bns) \<and>
           (0 < total_blocks self \<longrightarrow>
              top_scopes bns =
                concat (map (\<lambda>k. [Block k, Transition_after_block k])
                          (py_range (total_blocks self - 1)))
                @ [Block (total_blocks self - 1)]) \<and>
           (total_blocks self \<le> 0 \<longrightarrow> bns = []) \<and>
           trainsition_layer_to_classes self blocks_out = Inr (logits, cns) \<and>
           objective self logits = Inr (logits, ons)"
proof -
  from built obtain t1 n1 t2 n2 blocks_out bns cns l0 ons where
    cv: "conv3d videos (first_output_features self) 7 [1, 1, 2, 2, 1] SAME = Inr (t1, n1)" and
    pl: "pool t1 3 3 None (Interned ''avg'') (Some 2) (Some 1) None = Inr (t2, n2)" and
    bl: "build_blocks self (py_range (total_blocks self)) t2 = Inr (blocks_out, bns)" and
    cl: "trainsition_layer_to_classes self blocks_out = Inr (l0, cns)" and
    ob: "objective self l0 = Inr (logits, ons)" and
    ns: "ns = Scope Initial_convolution (n1 @ n2) # bns @ Scope Transition_to_classes cns # ons"
    by (auto simp: build_graph_def then_build_eq_Inr in_scope_eq_Inr)
  from objective_Inr [OF ob] have l0: "l0 = logits" by simp
  from initial_conv3d_Inr [OF cv] obtain b d h w c where
    v: "videos = Some [b, d, h, w, Some c]" and
    t1: "t1 = Some [b, d, map_option (\<lambda>m. (m + 1) div 2) h,
                    map_option (\<lambda>m. (m + 1) div 2) w, Some (first_output_features self)]" and
    n1: "n1 = [Variable ''kernel'' [7, 7, 7, c, first_output_features self] Variance_scaling,
               Scope Conv3D_names [Op (Conv3D_op [1, 1, 2, 2, 1] SAME)
                 [b, d, map_option (\<lambda>m. (m + 1) div 2) h,
                  map_option (\<lambda>m. (m + 1) div 2) w, Some (first_output_features self)]]]"
    by blast
  note p = initial_pool_Inr [OF pl [unfolded t1]]
  from bl have bt: "blocks_then_transitions self (py_range (total_blocks self)) t2
      = Inr (blocks_out, bns)"
    by (simp add: build_blocks_py_range)
  have sc: "top_scopes bns =
      concat (map (\<lambda>k. [Block k, Transition_after_block k]) (py_range (total_blocks self - 1)))
      @ [Block (total_blocks self - 1)]" if pos: "0 < total_blocks self"
    using bt blocks_then_transitions_scopes [of self "py_range (total_blocks self - 1)"
        "total_blocks self - 1" t2 blocks_out bns]
    by (simp add: py_range_butlast [OF pos])
  have em: "bns = []" if "total_blocks self \<le> 0"
    using bt that by (simp add: py_range_def)
  from v t1 n1 p bt sc em cl ob l0 ns show ?thesis
    by simp
qed


theorem build_graph_order_witness:
  "\<exists>logits ns inodes bns cns ons.
     build_graph example_net (Some [None, Some 8, Some 32, Some 32, Some 3]) = Inr (logits, ns) \<and>
     ns = Scope Initial_convolution inodes # bns @ Scope Transition_to_classes cns # ons \<and>
     top_scopes bns = [Block 0, Transition_after_block 0, Block 1, Transition_after_block 1,
                       Block 2]"
proof -
  obtain logits ns where
    b: "build_graph example_net (Some [None, Some 8, Some 32, Some 32, Some 3]) = Inr (logits, ns)"
    by (simp add: eval_defs example_net_def)
  have tb: "total_blocks example_net = 3" by (simp add: example_net_def)
  have r: "py_range 2 = [0, 1]" by (simp add: py_range_def upt_conv_Cons)
  from build_graph_order [OF b] obtain inodes bns cns ons where
    "ns = Scope Initial_convolution inodes # bns @ Scope Transition_to_classes cns # ons" and
    "top_scopes bns = [Block 0, Transition_after_block 0, Block 1, Transition_after_block 1,
                       Block 2]"
    unfolding tb by (auto simp: r)
  with b show ?thesis by blast
qed

section \<open>Checkpoint paths\<close>

lemma py_split_not_Nil [simp]: "py_split sep s \<noteq> []"
  by (induction s) (auto split: list.splits)




lemma of_char_digit_char: "d < 10 \<Longrightarrow> of_char (digit_char d) = 48 + d"
  by (simp add: digit_char_def)

lemma is_digit_digit_char: "d < 10 \<Longrightarrow> is_digit (digit_char d)"
  by (simp add: is_digit_def of_char_digit_char)

lemma digit_val_digit_char: "d < 10 \<Longrightarrow> digit_val (digit_char d) = int d"
  by (simp add: digit_val_def of_char_digit_char)

lemma is_digit_of_char: "is_digit c \<longleftrightarrow> (48::nat) \<le> of_char c \<and> of_char c \<le> (57::nat)"
  by (simp add: is_digit_def)

lemma digit_not_special:
  assumes "is_digit c"
  shows "c \<noteq> CHR ''/''" "c \<noteq> CHR ''-''" "c \<noteq> CHR ''+''" "c \<noteq> CHR ''_''" "\<not> is_space c"
  using assms by (auto simp: is_digit_def is_space_def)

lemma str_nat_digits: "c \<in> set (str_nat n) \<Longrightarrow> is_digit c"
proof (induction n arbitrary: c rule: str_nat.induct)
  case (1 n)
  show ?case
  proof (cases "n < 10")
    case True
    with "1.prems" show ?thesis
      by (subst (asm) str_nat.simps) (simp add: is_digit_digit_char)
  next
    case False
    with "1.prems" "1.IH" show ?thesis
      by (subst (asm) str_nat.simps) (auto simp: is_digit_digit_char)
  qed
qed

lemma str_nat_not_Nil [simp]: "str_nat n \<noteq> []"
  by (subst str_nat.simps) simp

lemma parse_digits_digits:
  "\<forall>c\<in>set xs. is_digit c \<Longrightarrow>
     parse_digits acc prev (xs @ ys) =
       parse_digits (foldl (\<lambda>a c. a * 10 + digit_val c) acc xs) (prev \<or> xs \<noteq> []) ys"
  by (induction xs arbitrary: acc prev) simp_all

lemma foldl_str_nat: "foldl (\<lambda>a c. a * 10 + digit_val c) 0 (str_nat n) = int n"
proof (induction n rule: str_nat.induct)
  case (1 n)
  show ?case
  proof (cases "n < 10")
    case True
    then show ?thesis
      by (subst str_nat.simps) (simp add: digit_val_digit_char)
  next
    case False
    have "int (n div 10) * 10 + int (n mod 10) = int n"
      by (metis div_mult_mod_eq of_nat_add of_nat_mult of_nat_numeral)
    with False "1.IH" show ?thesis
      by (subst str_nat.simps) (simp add: digit_val_digit_char)
  qed
qed

lemma parse_digits_str_nat: "parse_digits 0 False (str_nat n) = Inr (int n)"
  using parse_digits_digits [of "str_nat n" 0 False "[]"]
  by (simp add: str_nat_digits foldl_str_nat)

lemma py_strip_digits:
  assumes "\<forall>c\<in>set s. is_digit c"
  shows "py_strip s = s"
proof -
  have d: "dropWhile is_space t = t" if "\<forall>c\<in>set t. is_digit c" for t
    using that by (cases t) (auto simp: digit_not_special)
  from assms have "\<forall>c\<in>set (rev s). is_digit c" by simp
  with d [of s] d [of "rev s"] assms show ?thesis by (simp add: py_strip_def)
qed

lemma py_int_of_str_str_nat: "py_int_of_str (str_nat n) = Inr (int n)"
proof -
  obtain c cs where s: "str_nat n = c # cs" by (cases "str_nat n") auto
  then have "is_digit c" using str_nat_digits [of c n] by simp
  then have c: "c \<noteq> CHR ''-''" "c \<noteq> CHR ''+''" by (auto dest: digit_not_special)
  have "\<forall>x\<in>set (str_nat n). is_digit x" by (simp add: str_nat_digits)
  then have "py_strip (str_nat n) = str_nat n" by (rule py_strip_digits)
  then have st: "py_strip (str_nat n) = c # cs" by (simp only: s)
  have "parse_digits 0 False (c # cs) = Inr (int n)"
    using parse_digits_str_nat [of n] by (simp only: s)
  with c show ?thesis
    by (simp only: py_int_of_str_def st list.case if_False)
qed

lemma py_int_of_str_py_str: "0 \<le> n \<Longrightarrow> py_int_of_str (py_str n) = Inr n"
  by (simp add: py_str_def py_int_of_str_str_nat)


section \<open>Batches of an epoch\<close>

lemma get_set_data [simp]: "get_data (set_data st sp d) sp = d"
  by (cases sp) (simp_all add: get_data_def set_data_def)

lemma set_data_fields [simp]:
  "params (set_data st sp d) = params st"
  "net (set_data st sp d) = net st"
  "stdout (set_data st sp d) = stdout st"
  "summaries (set_data st sp d) = summaries st"
  "checkpoint_dirs (set_data st sp d) = checkpoint_dirs st"
  "checkpoint_files (set_data st sp d) = checkpoint_files st"
  by (cases sp; simp add: set_data_def)+

lemma get_data_updates [simp]:
  "get_data (st\<lparr>params := p\<rparr>) sp = get_data st sp"
  "get_data (st\<lparr>net := n\<rparr>) sp = get_data st sp"
  "get_data (st\<lparr>stdout := out\<rparr>) sp = get_data st sp"
  "get_data (st\<lparr>summaries := s\<rparr>) sp = get_data st sp"
  "get_data (st\<lparr>checkpoint_dirs := cd\<rparr>) sp = get_data st sp"
  "get_data (st\<lparr>checkpoint_files := cf\<rparr>) sp = get_data st sp"
  by (cases sp; simp add: get_data_def)+

lemma log_loss_accuracy_fields [simp]:
  "params (log_loss_accuracy st l a ep pre pr) = params st"
  "net (log_loss_accuracy st l a ep pre pr) = net st"
  "get_data (log_loss_accuracy st l a ep pre pr) sp = get_data st sp"
  "checkpoint_dirs (log_loss_accuracy st l a ep pre pr) = checkpoint_dirs st"
  "checkpoint_files (log_loss_accuracy st l a ep pre pr) = checkpoint_files st"
  "stdout (log_loss_accuracy st l a ep pre pr) = stdout st @ (if pr then [Mean_metrics l a] else [])"
  by (simp_all add: log_loss_accuracy_def print_def Let_def)

lemma train_batches_funpow:
  "train_batches e sp bs lr xs acc = (train_batch e sp bs lr ^^ length xs) acc"
  by (induction xs arbitrary: acc) (simp_all add: funpow_swap1)

lemma test_batches_funpow:
  "test_batches e sp bs xs acc = (test_batch e sp bs ^^ length xs) acc"
  by (induction xs arbitrary: acc) (simp_all add: funpow_swap1)

lemma train_batch_step:
  "train_batch e sp bs lr (st, ls, cs) = (st', ls', cs') \<Longrightarrow>
     length ls' = Suc (length ls) \<and> length cs' = Suc (length cs) \<and>
     get_data st' sp = snd (next_batch e (get_data st sp) bs) \<and>
     stdout st' = stdout st \<and> checkpoint_dirs st' = checkpoint_dirs st \<and>
     checkpoint_files st' = checkpoint_files st"
  by (auto simp: train_batch_def Let_def split: prod.splits if_splits)

lemma test_batch_step:
  "test_batch e sp bs (st, ls, cs) = (st', ls', cs') \<Longrightarrow>
     length ls' = Suc (length ls) \<and> length cs' = Suc (length cs) \<and>
     get_data st' sp = snd (next_batch e (get_data st sp) bs) \<and>
     params st' = params st \<and> net st' = net st \<and>
     stdout st' = stdout st \<and> checkpoint_dirs st' = checkpoint_dirs st \<and>
     checkpoint_files st' = checkpoint_files st"
  by (auto simp: test_batch_def Let_def split: prod.splits if_splits)

lemma train_batch_funpow_step:
  "(train_batch e sp bs lr ^^ n) (st, ls, cs) = (st', ls', cs') \<Longrightarrow>
     length ls' = length ls + n \<and> length cs' = length cs + n \<and>
     get_data st' sp = ((\<lambda>d. snd (next_batch e d bs)) ^^ n) (get_data st sp) \<and>
     stdout st' = stdout st \<and> checkpoint_dirs st' = checkpoint_dirs st \<and>
     checkpoint_files st' = checkpoint_files st"
proof (induction n arbitrary: st' ls' cs')
  case 0
  then show ?case by simp
next
  case (Suc n)
  obtain st1 ls1 cs1 where m: "(train_batch e sp bs lr ^^ n) (st, ls, cs) = (st1, ls1, cs1)"
    by (metis prod_cases3)
  with Suc.prems have s: "train_batch e sp bs lr (st1, ls1, cs1) = (st', ls', cs')" by simp
  from Suc.IH [OF m] train_batch_step [OF s] show ?case by simp
qed

lemma test_batch_funpow_step:
  "(test_batch e sp bs ^^ n) (st, ls, cs) = (st', ls', cs') \<Longrightarrow>
     length ls' = length ls + n \<and> length cs' = length cs + n \<and>
     get_data st' sp = ((\<lambda>d. snd (next_batch e d bs)) ^^ n) (get_data st sp) \<and>
     params st' = params st \<and> net st' = net st \<and>
     stdout st' = stdout st \<and> checkpoint_dirs st' = checkpoint_dirs st \<and>
     checkpoint_files st' = checkpoint_files st"
proof (induction n arbitrary: st' ls' cs')
  case 0
  then show ?case by simp
next
  case (Suc n)
  obtain st1 ls1 cs1 where m: "(test_batch e sp bs ^^ n) (st, ls, cs) = (st1, ls1, cs1)"
    by (metis prod_cases3)
  with Suc.prems have s: "test_batch e sp bs (st1, ls1, cs1) = (st', ls', cs')" by simp
  from Suc.IH [OF m] test_batch_step [OF s] show ?case by simp
qed

lemma train_one_epoch_funpow:
  assumes "bs \<noteq> 0"
  shows "train_one_epoch e st sp bs lr =
           Inr (case (train_batch e sp bs lr ^^ nat (num_examples e (get_data st sp) div bs))
                       (st, [], []) of
                  (st', ls, cs) \<Rightarrow> (st', np_mean ls, np_mean cs))"
  using assms
  by (simp add: train_one_epoch_def py_floordiv_def train_batches_funpow split: prod.splits)

lemma test_funpow:
  assumes "bs \<noteq> 0"
  shows "test e st sp bs =
           Inr (case (test_batch e sp bs ^^ nat (num_examples e (get_data st sp) div bs))
                       (st, [], []) of
                  (st', ls, cs) \<Rightarrow> (st', np_mean ls, np_mean cs))"
  using assms
  by (simp add: test_def py_floordiv_def test_batches_funpow split: prod.splits)

text \<open>
  Claim C7. For a data set with \<open>num_examples\<close> examples and a batch size \<open>bs > 0\<close>,
  \<open>train_one_epoch\<close> and \<open>test\<close> each run their loop body exactly
  \<open>num_examples // bs\<close> times: so many losses and accuracies are collected, and the data
  set has handed out so many batches, each asked for with \<open>bs\<close> examples, which leaves
  the last \<open>num_examples % bs\<close> examples unused. Both return the means of the collected
  values, the sum divided by the count; \<open>test\<close> leaves the parameters as they were.
\<close>

theorem epoch_batches_and_means:
  assumes bs: "0 < bs" and n: "0 \<le> num_examples e (get_data st sp)"
  shows "\<exists>st' losses accs vst vlosses vaccs.
           (train_batch e sp bs lr ^^ nat (num_examples e (get_data st sp) div bs)) (st, [], [])
             = (st', losses, accs) \<and>
           train_one_epoch e st sp bs lr = Inr (st', np_mean losses, np_mean accs) \<and>
           (test_batch e sp bs ^^ nat (num_examples e (get_data st sp) div bs)) (st, [], [])
             = (vst, vlosses, vaccs) \<and>
           test e st sp bs = Inr (vst, np_mean vlosses, np_mean vaccs) \<and>
           int (length losses) = num_examples e (get_data st sp) div bs \<and>
           int (length accs) = num_examples e (get_data st sp) div bs \<and>
           int (length vlosses) = num_examples e (get_data st sp) div bs \<and>
           int (length vaccs) = num_examples e (get_data st sp) div bs \<and>
           get_data st' sp = ((\<lambda>d. snd (next_batch e d bs))
                                ^^ nat (num_examples e (get_data st sp) div bs)) (get_data st sp) \<and>
           get_data vst sp = ((\<lambda>d. snd (next_batch e d bs))
                                ^^ nat (num_examples e (get_data st sp) div bs)) (get_data st sp) \<and>
           params vst = params st \<and>
           bs * (num_examples e (get_data st sp) div bs)
             = num_examples e (get_data st sp) - num_examples e (get_data st sp) mod bs \<and>
           (\<forall>xs. xs \<noteq> [] \<longrightarrow> np_mean xs = Finite (sum_list xs / real (length xs)))"
proof -
  let ?N = "num_examples e (get_data st sp)"
  obtain st' losses accs where
    t: "(train_batch e sp bs lr ^^ nat (?N div bs)) (st, [], []) = (st', losses, accs)"
    by (metis prod_cases3)
  obtain vst vlosses vaccs where
    v: "(test_batch e sp bs ^^ nat (?N div bs)) (st, [], []) = (vst, vlosses, vaccs)"
    by (metis prod_cases3)
  from bs n have d: "0 \<le> ?N div bs" by (simp add: pos_imp_zdiv_nonneg_iff)
  from bs have nz: "bs \<noteq> 0" by simp
  have tr: "train_one_epoch e st sp bs lr = Inr (st', np_mean losses, np_mean accs)"
    using train_one_epoch_funpow [OF nz, of e st sp lr] t by simp
  have te: "test e st sp bs = Inr (vst, np_mean vlosses, np_mean vaccs)"
    using test_funpow [OF nz, of e st sp] v by simp
  have ar: "bs * (?N div bs) = ?N - ?N mod bs"
    by (simp add: minus_mod_eq_mult_div)
  from train_batch_funpow_step [OF t] test_batch_funpow_step [OF v] d t v tr te ar
  show ?thesis
    by (auto simp: np_mean_def)
qed

theorem epoch_batches_and_means_witness:
  "\<exists>st' vst. train_one_epoch example_env example_session Train_split 4 (1 / 10)
             = Inr (st', Finite (3 / 4), Finite (1 / 2)) \<and>
           train_data st' = (10, 2) \<and>
           test example_env example_session Train_split 4 = Inr (vst, Finite (1 / 4), Finite (3 / 4)) \<and>
           params vst = []"
proof -
  have h: "(0::int) < 4" "0 \<le> num_examples example_env (get_data example_session Train_split)"
    by (simp_all add: example_env_def example_session_def get_data_def)
  have n: "nat (num_examples example_env (get_data example_session Train_split) div 4) = Suc (Suc 0)"
    by (simp add: example_env_def example_session_def get_data_def)
  from epoch_batches_and_means [OF h, of "1 / 10"] obtain st' losses accs vst vlosses vaccs where
    t: "(train_batch example_env Train_split 4 (1 / 10) ^^ Suc (Suc 0)) (example_session, [], [])
          = (st', losses, accs)" and
    tr: "train_one_epoch example_env example_session Train_split 4 (1 / 10)
          = Inr (st', np_mean losses, np_mean accs)" and
    v: "(test_batch example_env Train_split 4 ^^ Suc (Suc 0)) (example_session, [], [])
          = (vst, vlosses, vaccs)" and
    te: "test example_env example_session Train_split 4 = Inr (vst, np_mean vlosses, np_mean vaccs)" and
    p: "params vst = params example_session"
    unfolding n by blast
  from t have "losses = [1, 1 / 2] \<and> accs = [1 / 2, 1 / 2] \<and> train_data st' = (10, 2)"
    by (auto simp: train_batch_def example_env_def example_session_def example_net_def
        get_data_def set_data_def Let_def)
  moreover from v have "vlosses = [1 / 4, 1 / 4] \<and> vaccs = [3 / 4, 3 / 4]"
    by (auto simp: test_batch_def example_env_def example_session_def
        get_data_def set_data_def Let_def)
  moreover have "params example_session = []" by (simp add: example_session_def)
  ultimately show ?thesis using tr te p by (auto simp: np_mean_def)
qed

text \<open>
  Claim C10. When \<open>num_examples // batch_size\<close> is 0, in particular when
  \<open>0 < num_examples < batch_size\<close>, \<open>train_one_epoch\<close> and \<open>test\<close> run no batch,
  leave the session as it was (no parameter is updated, no batch is drawn) and return
  NaN for the mean loss and the mean accuracy, without an error.
\<close>

theorem empty_epoch_gives_nan:
  "(bs \<noteq> 0 \<and> num_examples e (get_data st sp) div bs = 0 \<longrightarrow>
      train_one_epoch e st sp bs lr = Inr (st, NaN, NaN) \<and>
      test e st sp bs = Inr (st, NaN, NaN)) \<and>
   (0 < num_examples e (get_data st sp) \<and> num_examples e (get_data st sp) < bs \<longrightarrow>
      train_one_epoch e st sp bs lr = Inr (st, NaN, NaN) \<and>
      test e st sp bs = Inr (st, NaN, NaN))"
  by (auto simp: train_one_epoch_def test_def py_floordiv_def py_range_def np_mean_def)

theorem empty_epoch_gives_nan_witness:
  "train_one_epoch example_env example_session Validation_split 4 (1 / 10)
     = Inr (example_session, NaN, NaN) \<and>
   test example_env example_session Validation_split 4 = Inr (example_session, NaN, NaN)"
proof -
  have "0 < num_examples example_env (get_data example_session Validation_split) \<and>
        num_examples example_env (get_data example_session Validation_split) < 4"
    by (simp add: example_env_def example_session_def get_data_def)
  with empty_epoch_gives_nan [of 4 example_env example_session Validation_split "1 / 10"]
  show ?thesis by blast
qed

section \<open>The epochs of a run\<close>

lemma epochs_printed_append [simp]:
  "epochs_printed (xs @ ys) = epochs_printed xs @ epochs_printed ys"
  by (induction xs rule: epochs_printed.induct) simp_all

lemma print_fields [simp]:
  "stdout (print m st) = stdout st @ [m]"
  "params (print m st) = params st"
  "net (print m st) = net st"
  "train_data (print m st) = train_data st"
  "validation_data (print m st) = validation_data st"
  "get_data (print m st) sp = get_data st sp"
  "checkpoint_dirs (print m st) = checkpoint_dirs st"
  "checkpoint_files (print m st) = checkpoint_files st"
  by (simp_all add: print_def)

lemma save_model_fields [simp]:
  "stdout (save_model st g) = stdout st"
  "params (save_model st g) = params st"
  "net (save_model st g) = net st"
  "train_data (save_model st g) = train_data st"
  "validation_data (save_model st g) = validation_data st"
  by (simp_all add: save_model_def Let_def split: prod.splits)

lemma train_one_epoch_Inr:
  assumes "bs \<noteq> 0"
  shows "\<exists>st' l a. train_one_epoch e st sp bs lr = Inr (st', l, a) \<and> stdout st' = stdout st"
proof -
  obtain st' ls cs where
    t: "(train_batch e sp bs lr ^^ nat (num_examples e (get_data st sp) div bs)) (st, [], [])
          = (st', ls, cs)"
    by (metis prod_cases3)
  with train_one_epoch_funpow [OF assms, of e st sp lr] train_batch_funpow_step [OF t]
  show ?thesis by simp
qed

lemma test_Inr:
  assumes "bs \<noteq> 0"
  shows "\<exists>st' l a. test e st sp bs = Inr (st', l, a) \<and> stdout st' = stdout st \<and>
           params st' = params st \<and> net st' = net st"
proof -
  obtain st' ls cs where
    t: "(test_batch e sp bs ^^ nat (num_examples e (get_data st sp) div bs)) (st, [], [])
          = (st', ls, cs)"
    by (metis prod_cases3)
  with test_funpow [OF assms, of e st sp] test_batch_funpow_step [OF t]
  show ?thesis by simp
qed

lemma train_epoch_Inr:
  assumes bs: "batch_size tp \<noteq> 0"
  shows "\<exists>st' st4 loss acc.
           train_epoch e tp ep st = Inr st' \<and>
           epochs_printed (stdout st') = epochs_printed (stdout st) @ [ep] \<and>
           train_one_epoch e
               (print (Text ''Training...'')
                  (if snd (epoch_learning_rate tp ep)
                   then print (Decrease_learning_rate (fst (epoch_learning_rate tp ep)))
                          (print (Train_epoch ep) st)
                   else print (Train_epoch ep) st))
               Train_split (batch_size tp) (fst (epoch_learning_rate tp ep))
             = Inr (st4, loss, acc) \<and>
           params st' = params st4"
proof -
  obtain lr decreased where lr: "epoch_learning_rate tp ep = (lr, decreased)"
    by (cases "epoch_learning_rate tp ep")
  define st1 where "st1 = print (Train_epoch ep) st"
  define st2 where "st2 = (if decreased then print (Decrease_learning_rate lr) st1 else st1)"
  define st3 where "st3 = print (Text ''Training...'') st2"
  have o3: "epochs_printed (stdout st3) = epochs_printed (stdout st) @ [ep]"
    by (simp add: st3_def st2_def st1_def)
  from train_one_epoch_Inr [OF bs, of e st3 Train_split lr] obtain st4 loss acc where
    t: "train_one_epoch e st3 Train_split (batch_size tp) lr = Inr (st4, loss, acc)" and
    o4: "stdout st4 = stdout st3"
    by blast
  define st5 where "st5 = (if should_save_logs (net st4)
      then log_loss_accuracy st4 loss acc ep ''train'' True else st4)"
  have o5: "epochs_printed (stdout st5) = epochs_printed (stdout st3)" and p5: "params st5 = params st4"
    by (simp_all add: st5_def o4)
  define v where "v = (if validation_set tp = Some True
      then and_then (test e (print (Text ''Validation...'') st5) Validation_split (batch_size tp))
             (\<lambda>(st6, vloss, vacc).
                Inr (if should_save_logs (net st6)
                     then log_loss_accuracy st6 vloss vacc ep ''valid'' True else st6))
      else Inr st5)"
  have "\<exists>st7. v = Inr st7 \<and> epochs_printed (stdout st7) = epochs_printed (stdout st3) \<and>
           params st7 = params st4"
  proof (cases "validation_set tp = Some True")
    case True
    from test_Inr [OF bs, of e "print (Text ''Validation...'') st5" Validation_split]
    obtain st6 vl va where
      "test e (print (Text ''Validation...'') st5) Validation_split (batch_size tp)
         = Inr (st6, vl, va)" and
      "stdout st6 = stdout (print (Text ''Validation...'') st5)" and
      "params st6 = params (print (Text ''Validation...'') st5)"
      by blast
    with True o5 p5 show ?thesis by (simp add: v_def)
  next
    case False
    with o5 p5 show ?thesis by (simp add: v_def)
  qed
  then obtain st7 where v7: "v = Inr st7" and
    o7: "epochs_printed (stdout st7) = epochs_printed (stdout st3)" and p7: "params st7 = params st4"
    by blast
  define st' where "st' = (let st8 = print Time_per_epoch st7
      in if should_save_model (net st8) then save_model st8 (Some ep) else st8)"
  have r: "train_epoch e tp ep st = Inr st'"
    by (simp only: train_epoch_def lr Let_def prod.case st1_def [symmetric] st2_def [symmetric]
        st3_def [symmetric] t and_then_Inr st5_def [symmetric] v_def [symmetric] v7 st'_def)
  have "epochs_printed (stdout st') = epochs_printed (stdout st) @ [ep]" "params st' = params st4"
    using o7 o3 p7 by (simp_all add: st'_def Let_def)
  with r t lr show ?thesis by (auto simp: st3_def st2_def st1_def)
qed






section \<open>The learning rate of an epoch\<close>

text \<open>
  Claim C3. With the thresholds in order (\<open>reduce_lr_epoch_1 \<le> reduce_lr_epoch_2\<close>), the
  learning rate of an epoch is computed from \<open>initial_learning_rate\<close> and the epoch alone:
  it is \<open>initial_learning_rate\<close> when \<open>epoch < reduce_lr_epoch_1\<close>,
  \<open>initial_learning_rate / 10\<close> when \<open>reduce_lr_epoch_1 \<le> epoch < reduce_lr_epoch_2\<close>, and
  \<open>initial_learning_rate / 100\<close> when \<open>epoch \<ge> reduce_lr_epoch_2\<close>. The training pass of
  the epoch runs with this rate, and the epoch ends with the parameters that pass
  produced. Division is over the reals.
\<close>

theorem learning_rate_schedule:
  assumes "reduce_lr_epoch_1 tp \<le> reduce_lr_epoch_2 tp"
  shows
  "(epoch < reduce_lr_epoch_1 tp \<longrightarrow>
      fst (epoch_learning_rate tp epoch) = initial_learning_rate tp) \<and>
   (reduce_lr_epoch_1 tp \<le> epoch \<and> epoch < reduce_lr_epoch_2 tp \<longrightarrow>
      fst (epoch_learning_rate tp epoch) = initial_learning_rate tp / 10) \<and>
   (reduce_lr_epoch_2 tp \<le> epoch \<longrightarrow>
      fst (epoch_learning_rate tp epoch) = initial_learning_rate tp / 100) \<and>
   (batch_size tp \<noteq> 0 \<longrightarrow>
      (\<exists>st' st4 loss acc.
         train_epoch e tp epoch st = Inr st' \<and>
         train_one_epoch e
             (print (Text ''Training...'')
                (if snd (epoch_learning_rate tp epoch)
                 then print (Decrease_learning_rate (fst (epoch_learning_rate tp epoch)))
                        (print (Train_epoch epoch) st)
                 else print (Train_epoch epoch) st))
             Train_split (batch_size tp) (fst (epoch_learning_rate tp epoch))
           = Inr (st4, loss, acc) \<and>
         params st' = params st4))"
proof -
  have "batch_size tp \<noteq> 0 \<longrightarrow>
      (\<exists>st' st4 loss acc.
         train_epoch e tp epoch st = Inr st' \<and>
         train_one_epoch e
             (print (Text ''Training...'')
                (if snd (epoch_learning_rate tp epoch)
                 then print (Decrease_learning_rate (fst (epoch_learning_rate tp epoch)))
                        (print (Train_epoch epoch) st)
                 else print (Train_epoch epoch) st))
             Train_split (batch_size tp) (fst (epoch_learning_rate tp epoch))
           = Inr (st4, loss, acc) \<and>
         params st' = params st4)"
    using train_epoch_Inr [of tp e epoch st] by blast
  with assms show ?thesis
    by (simp add: epoch_learning_rate_def)
qed

theorem learning_rate_schedule_witness:
  "reduce_lr_epoch_1 example_params \<le> reduce_lr_epoch_2 example_params \<and>
   fst (epoch_learning_rate example_params 10) = 1 / 10 \<and>
   fst (epoch_learning_rate example_params 50) = 1 / 100 \<and>
   fst (epoch_learning_rate example_params 75) = 1 / 1000 \<and>
   (\<exists>st'. train_epoch example_env example_params 75 example_session = Inr st' \<and>
          params st' = [1 / 1000, 1 / 1000])"
proof -
  have ord: "reduce_lr_epoch_1 example_params \<le> reduce_lr_epoch_2 example_params"
    by (simp add: example_params_def)
  note t = learning_rate_schedule [where tp = example_params and e = example_env
      and st = example_session, OF ord]
  have a: "fst (epoch_learning_rate example_params 10) = 1 / 10"
    using t [where epoch = 10] by (simp add: example_params_def)
  have b: "fst (epoch_learning_rate example_params 50) = 1 / 100"
    using t [where epoch = 50] by (simp add: example_params_def)
  have c: "fst (epoch_learning_rate example_params 75) = 1 / 1000"
    using t [where epoch = 75] by (simp add: example_params_def)
  have lr: "epoch_learning_rate example_params 75 = (1 / 1000, True)"
    by (simp add: epoch_learning_rate_def example_params_def)
  define st3 where "st3 = print (Text ''Training...'')
      (print (Decrease_learning_rate (1 / 1000)) (print (Train_epoch 75) example_session))"
  have "batch_size example_params \<noteq> 0" by (simp add: example_params_def)
  with t [where epoch = 75] obtain st' st4 loss acc where
    r: "train_epoch example_env example_params 75 example_session = Inr st'" and
    o: "train_one_epoch example_env st3 Train_split (batch_size example_params) (1 / 1000)
          = Inr (st4, loss, acc)" and
    p: "params st' = params st4"
    unfolding lr st3_def by auto
  have g: "get_data st3 Train_split = (10, 0)" "params st3 = []"
      "should_save_logs (net st3) = False"
    by (simp_all add: st3_def example_session_def get_data_def example_net_def)
  have tb: "train_batch example_env Train_split 4 lr' (s0, ls, cs) =
      (set_data s0 Train_split (fst (get_data s0 Train_split), snd (get_data s0 Train_split) + 1)
         \<lparr>params := params s0 @ [lr']\<rparr>,
       ls @ [1 / (1 + real (snd (get_data s0 Train_split)))], cs @ [1 / 2])"
    if "should_save_logs (net s0) = False" for s0 :: "(real list, int \<times> nat) session" and lr' ls cs
    using that by (simp add: train_batch_def example_env_def Let_def)
  have ne: "num_examples example_env = fst" by (simp add: example_env_def)
  have t1: "\<exists>st4 l c. train_one_epoch example_env st3 Train_split 4 (1 / 1000) = Inr (st4, l, c) \<and>
          params st4 = [1 / 1000, 1 / 1000]"
    using g
    by (simp add: train_one_epoch_def py_floordiv_def py_range_def upt_conv_Cons tb ne)
  have "batch_size example_params = 4" by (simp add: example_params_def)
  with o t1 p have "params st' = [1 / 1000, 1 / 1000]" by auto
  with ord a b c r show ?thesis by simp
qed

end
